theory Spec2Isabelle
  imports Complex_Main
begin

section \<open>Python values and exceptions\<close>

text \<open>
  The values that flow through \<^verbatim>\<open>register_agent.py\<close> are decoded JSON documents
  (the result of \<^verbatim>\<open>response.json()\<close>) and Python's \<^verbatim>\<open>None\<close>, which JSON's
  \<^verbatim>\<open>null\<close> decodes to. A decoded object is an association list; a lookup takes the
  first binding of a key.
\<close>

datatype json =
    JNull
  | JBool bool
  | JInt int
  | JFloat real
  | JStr string
  | JList "json list"
  | JObj "(string \<times> json) list"

text \<open>
  Exceptions are values. \<open>KeyboardInterrupt\<close> and \<open>SystemExit\<close> derive from
  \<^verbatim>\<open>BaseException\<close> only, so \<^verbatim>\<open>except Exception\<close> does not catch them;
  \<open>JSONDecodeError\<close> derives from \<^verbatim>\<open>ValueError\<close>.
\<close>

datatype exn =
    Exception string
  | ValueError string
  | TypeError
  | KeyError
  | IndexError
  | AttributeError
  | RequestException string
  | JSONDecodeError string
  | OSError string
  | OverflowError
  | RecursionError
  | KeyboardInterrupt
  | SystemExit

fun is_Exception :: "exn \<Rightarrow> bool" where
  "is_Exception KeyboardInterrupt = False"
| "is_Exception SystemExit = False"
| "is_Exception e = True"

fun is_ValueError :: "exn \<Rightarrow> bool" where
  "is_ValueError (ValueError m) = True"
| "is_ValueError (JSONDecodeError m) = True"
| "is_ValueError e = False"

text \<open>Truthiness, as \<^verbatim>\<open>if cached_token\<close> tests it.\<close>

fun truthy :: "json \<Rightarrow> bool" where
  "truthy JNull = False"
| "truthy (JBool b) = b"
| "truthy (JInt i) = (i \<noteq> 0)"
| "truthy (JFloat r) = (r \<noteq> 0)"
| "truthy (JStr s) = (s \<noteq> [])"
| "truthy (JList xs) = (xs \<noteq> [])"
| "truthy (JObj kvs) = (kvs \<noteq> [])"

text \<open>\<^verbatim>\<open>v == 0\<close>: Python's numeric equality, under which \<^verbatim>\<open>False == 0\<close> holds.\<close>

fun eq0 :: "json \<Rightarrow> bool" where
  "eq0 (JInt i) = (i = 0)"
| "eq0 (JFloat r) = (r = 0)"
| "eq0 (JBool b) = (\<not> b)"
| "eq0 v = False"

text \<open>\<^verbatim>\<open>v[k]\<close> with a string key: only a dict accepts it, and a missing key raises.\<close>

fun getitem :: "json \<Rightarrow> string \<Rightarrow> exn + json" where
  "getitem (JObj kvs) k = (case map_of kvs k of None \<Rightarrow> Inl KeyError | Some v \<Rightarrow> Inr v)"
| "getitem v k = Inl TypeError"

text \<open>\<^verbatim>\<open>v[0]\<close>. A decoded JSON object has string keys only, so the key 0 is missing.\<close>

fun getitem0 :: "json \<Rightarrow> exn + json" where
  "getitem0 (JList []) = Inl IndexError"
| "getitem0 (JList (x # xs)) = Inr x"
| "getitem0 (JStr []) = Inl IndexError"
| "getitem0 (JStr (c # cs)) = Inr (JStr [c])"
| "getitem0 (JObj kvs) = Inl KeyError"
| "getitem0 v = Inl TypeError"

text \<open>\<^verbatim>\<open>v.get(k, default)\<close>: a method of dicts only.\<close>

fun py_get :: "json \<Rightarrow> string \<Rightarrow> json \<Rightarrow> exn + json" where
  "py_get (JObj kvs) k d = (case map_of kvs k of None \<Rightarrow> Inr d | Some v \<Rightarrow> Inr v)"
| "py_get v k d = Inl AttributeError"

fun starts_with :: "string \<Rightarrow> string \<Rightarrow> bool" where
  "starts_with [] cs = True"
| "starts_with (p # ps) [] = False"
| "starts_with (p # ps) (c # cs) = (p = c \<and> starts_with ps cs)"

fun contains :: "string \<Rightarrow> string \<Rightarrow> bool" where
  "contains n [] = (n = [])"
| "contains n (c # cs) = (starts_with n (c # cs) \<or> contains n cs)"

text \<open>
  \<^verbatim>\<open>g in v\<close> for a string \<open>g\<close>: element of a list, key of a dict, substring of a
  string; any other value is not iterable.
\<close>

fun py_in :: "string \<Rightarrow> json \<Rightarrow> exn + bool" where
  "py_in g (JList xs) = Inr (JStr g \<in> set xs)"
| "py_in g (JObj kvs) = Inr (g \<in> fst ` set kvs)"
| "py_in g (JStr s) = Inr (contains g s)"
| "py_in g v = Inl TypeError"

text \<open>The values a \<^verbatim>\<open>for\<close> loop draws from \<open>v\<close>.\<close>

fun py_iter :: "json \<Rightarrow> exn + json list" where
  "py_iter (JList xs) = Inr xs"
| "py_iter (JObj kvs) = Inr (map (\<lambda>kv. JStr (fst kv)) kvs)"
| "py_iter (JStr s) = Inr (map (\<lambda>c. JStr [c]) s)"
| "py_iter v = Inl TypeError"

text \<open>\<^verbatim>\<open>s.split(sep)\<close> for a one-character separator.\<close>

fun split_on :: "char \<Rightarrow> string \<Rightarrow> string list" where
  "split_on sep [] = [[]]"
| "split_on sep (c # cs) =
     (if c = sep then [] # split_on sep cs
      else (case split_on sep cs of [] \<Rightarrow> [[c]] | p # ps \<Rightarrow> (c # p) # ps))"

text \<open>\<^verbatim>\<open>method.lower()\<close> on the ASCII letters.\<close>

definition lower_char :: "char \<Rightarrow> char" where
  "lower_char c =
     (case map_of (zip ''ABCDEFGHIJKLMNOPQRSTUVWXYZ'' ''abcdefghijklmnopqrstuvwxyz'') c of
        None \<Rightarrow> c | Some d \<Rightarrow> d)"

definition lower :: "string \<Rightarrow> string" where
  "lower s = map lower_char s"

section \<open>The world outside the process\<close>

text \<open>
  An HTTP exchange either raises in the transport or yields a response with a status
  code, a raw body and the result of \<^verbatim>\<open>response.json()\<close>, which may itself raise.
\<close>

datatype response = Response (resp_status: int) (resp_content: string) (resp_json: "exn + json")

datatype outcome = Raises exn | Responds response

text \<open>
  Everything the program does not control is a field of the world: the successive
  readings of \<^verbatim>\<open>time.time()\<close>, the outcome of each login request and of each API
  request in the order they are sent, the outcome of each subprocess (standard output,
  standard error, return code), the result of writing the configuration files, the
  process environment, the first name \<^verbatim>\<open>requests.status_codes._codes\<close> gives an
  integer status code, and the builtin \<^verbatim>\<open>int()\<close> on strings. The table of status
  codes has integer keys, so \<^verbatim>\<open>None\<close> is never one of them. Two limits of the
  interpreter are fields too: the largest number of seconds, in absolute value, that
  \<^verbatim>\<open>time.sleep\<close> converts to its C time type, and the number of invocations of
  \<open>add_agent_to_group\<close> that can be nested before the limit on the depth of recursion
  is reached (the frames of the main block and of the calls that an invocation makes
  count against the same limit, so this number is below the interpreter's own).
\<close>

record world =
  clock :: "nat \<Rightarrow> real"
  login :: "nat \<Rightarrow> outcome"
  api :: "nat \<Rightarrow> outcome"
  proc :: "nat \<Rightarrow> exn + (string \<times> string \<times> int)"
  config_io :: "exn option"
  environ :: "string \<Rightarrow> string option"
  codes :: "int \<Rightarrow> string option"
  py_int :: "string \<Rightarrow> int option"
  sleep_limit :: int
  recursion_limit :: nat

text \<open>
  A resource path is an f-string: literal text and interpolated values. A log record is
  its template and the values interpolated.
\<close>

datatype frag = Lit string | Val json

type_synonym resource = "frag list"

type_synonym response_msg = "json \<times> int option \<times> string"

datatype level = INFO | ERROR

datatype logarg = LStr string | LVal json | LMsg response_msg | LExn exn | LRes resource

datatype event =
    Log level string "logarg list"
  | ApiCall string resource json
  | HttpLogin
  | HttpRequest string resource json json
  | Sleep int
  | Exec "string list" "string option"
  | WriteConfig

text \<open>
  The process state: the two globals of the token cache, how many clock readings, login
  requests, API requests and subprocesses have happened, how many invocations of
  \<open>add_agent_to_group\<close> are on the stack below the running one, and the trace of effects.
  \<open>ApiCall\<close> marks an entry into \<open>wazuh_api\<close>; \<open>HttpRequest\<close> a request that was sent.
\<close>

record state =
  cached_token :: json
  token_expiration :: real
  ticks :: nat
  logins :: nat
  calls :: nat
  execs :: nat
  frames :: nat
  trace :: "event list"

definition init_state :: state where
  "init_state = \<lparr>cached_token = JNull, token_expiration = 0, ticks = 0, logins = 0,
     calls = 0, execs = 0, frames = 0, trace = []\<rparr>"

definition emit :: "event \<Rightarrow> state \<Rightarrow> state" where
  "emit e s = s\<lparr>trace := trace s @ [e]\<rparr>"

definition logger :: "level \<Rightarrow> string \<Rightarrow> logarg list \<Rightarrow> state \<Rightarrow> state" where
  "logger l m as s = emit (Log l m as) s"

definition time_time :: "world \<Rightarrow> state \<Rightarrow> real \<times> state" where
  "time_time w s = (clock w (ticks s), s\<lparr>ticks := Suc (ticks s)\<rparr>)"

text \<open>
  \<^verbatim>\<open>time.sleep(int(wait_time))\<close>: the conversion of the string raises
  \<^verbatim>\<open>ValueError\<close>, a number of seconds beyond the C time type raises
  \<^verbatim>\<open>OverflowError\<close>, and a negative length raises \<^verbatim>\<open>ValueError\<close>, in this order.
\<close>

definition time_sleep :: "world \<Rightarrow> string \<Rightarrow> state \<Rightarrow> (exn + unit) \<times> state" where
  "time_sleep w wait_time s =
     (case py_int w wait_time of
        None \<Rightarrow> (Inl (ValueError ''invalid literal for int() with base 10''), s)
      | Some n \<Rightarrow>
          if n < - sleep_limit w \<or> sleep_limit w < n then (Inl OverflowError, s)
          else if n < 0 then (Inl (ValueError ''sleep length must be non-negative''), s)
          else (Inr (), emit (Sleep n) s))"

definition getenv :: "world \<Rightarrow> string \<Rightarrow> string \<Rightarrow> string" where
  "getenv w k d = (case environ w k of None \<Rightarrow> d | Some v \<Rightarrow> v)"

section \<open>The token cache\<close>

text \<open>
  \<open>get_auth_token\<close> (lines 30-53). The clock is read in the condition only when the
  cached token is truthy, and once more after a successful login.
\<close>

definition get_auth_token :: "world \<Rightarrow> state \<Rightarrow> (exn + json) \<times> state" where
  "get_auth_token w s =
     (let (valid, s1) =
            (if truthy (cached_token s)
             then (let (t, s') = time_time w s in (t < token_expiration s', s'))
             else (False, s))
      in if valid
         then (Inr (cached_token s1),
               logger INFO ''Token is not expired, will use the cached token'' [] s1)
         else
           let s2 = logger INFO ''Token is empty or got expired, renewing a new token'' [] s1;
               s3 = emit HttpLogin (s2\<lparr>logins := Suc (logins s2)\<rparr>)
           in (case login w (logins s2) of
                 Raises e \<Rightarrow> (Inl e, s3)
               | Responds r \<Rightarrow>
                   if resp_status r = 200 then
                     (case resp_json r of
                        Inl e \<Rightarrow> (Inl e, s3)
                      | Inr token_data \<Rightarrow>
                          (case getitem token_data ''data'' of
                             Inl e \<Rightarrow> (Inl e, s3)
                           | Inr d \<Rightarrow>
                               (case getitem d ''token'' of
                                  Inl e \<Rightarrow> (Inl e, s3)
                                | Inr tok \<Rightarrow>
                                    let (t, s4) = time_time w (s3\<lparr>cached_token := tok\<rparr>)
                                    in (Inr tok, s4\<lparr>token_expiration := t + 300\<rparr>))))
                   else
                     (Inl (Exception ''Failed to get authentication token''),
                      logger ERROR ''Failed to get authentication token: {response.content}''
                        [LStr (resp_content r)] s3)))"

section \<open>The API client\<close>

text \<open>
  The body of the \<^verbatim>\<open>try\<close> block of \<open>wazuh_api\<close> (lines 117-144): the token, the
  request chosen by the lowered method name (anything but post, put and delete is a
  get), the status code and the decoded body.
\<close>

definition http_verb :: "string \<Rightarrow> string" where
  "http_verb method =
     (if lower method = ''post'' then ''post''
      else if lower method = ''put'' then ''put''
      else if lower method = ''delete'' then ''delete''
      else ''get'')"

definition wazuh_api_try ::
  "world \<Rightarrow> string \<Rightarrow> resource \<Rightarrow> json \<Rightarrow> state \<Rightarrow> (exn + (int \<times> json)) \<times> state" where
  "wazuh_api_try w method resource data s =
     (case get_auth_token w s of
        (Inl e, s1) \<Rightarrow> (Inl e, s1)
      | (Inr token, s1) \<Rightarrow>
          let s2 = emit (HttpRequest (http_verb method) resource data token)
                     (s1\<lparr>calls := Suc (calls s1)\<rparr>)
          in (case api w (calls s1) of
                Raises e \<Rightarrow> (Inl e, s2)
              | Responds r \<Rightarrow>
                  (case resp_json r of
                     Inl e \<Rightarrow> (Inl e, s2)
                   | Inr response_json \<Rightarrow> (Inr (resp_status r, response_json), s2))))"

text \<open>
  \<open>wazuh_api\<close> (lines 113-151): \<^verbatim>\<open>except Exception\<close> turns whatever the body raised
  into the pair \<^verbatim>\<open>(None, {})\<close>; an exception outside the \<^verbatim>\<open>Exception\<close> hierarchy
  passes through.
\<close>

definition wazuh_api ::
  "world \<Rightarrow> string \<Rightarrow> resource \<Rightarrow> json \<Rightarrow> state \<Rightarrow> (exn + (int option \<times> json)) \<times> state" where
  "wazuh_api w method resource data s =
     (case wazuh_api_try w method resource data (emit (ApiCall method resource data) s) of
        (Inl e, s1) \<Rightarrow>
          if is_Exception e
          then (Inr (None, JObj []),
                logger ERROR ''Error: for resource {resource}, exception {exception}''
                  [LRes resource, LExn e] s1)
          else (Inl e, s1)
      | (Inr (code, response_json), s1) \<Rightarrow> (Inr (Some code, response_json), s1))"

text \<open>
  \<open>code_desc\<close> (lines 164-165) indexes the table of status codes and raises
  \<^verbatim>\<open>KeyError\<close> on a key it does not have; \<open>http_codes_serializer\<close> (lines 87-90)
  pairs the response with the status code and its description.
\<close>

definition code_desc :: "world \<Rightarrow> int option \<Rightarrow> exn + string" where
  "code_desc w http_status_code =
     (case http_status_code of
        None \<Rightarrow> Inl KeyError
      | Some n \<Rightarrow> (case codes w n of None \<Rightarrow> Inl KeyError | Some d \<Rightarrow> Inr d))"

definition http_codes_serializer :: "world \<Rightarrow> json \<Rightarrow> int option \<Rightarrow> exn + response_msg" where
  "http_codes_serializer w response status_code =
     (case code_desc w status_code of
        Inl e \<Rightarrow> Inl e
      | Inr d \<Rightarrow> Inr (response, status_code, d))"

text \<open>
  The test \<^verbatim>\<open>status_code == 200 and response["error"] == 0\<close>: the body is indexed
  only when the status code is 200.
\<close>

definition is_success :: "int option \<Rightarrow> json \<Rightarrow> exn + bool" where
  "is_success status_code response =
     (if status_code = Some 200
      then (case getitem response ''error'' of Inl e \<Rightarrow> Inl e | Inr v \<Rightarrow> Inr (eq0 v))
      else Inr False)"

section \<open>The agent state resolver\<close>

text \<open>
  The \<^verbatim>\<open>for\<close> loop of \<open>wazuh_agent_status\<close> (lines 259-262): every item overwrites
  the three variables, in the order name, status, id.
\<close>

fun status_items :: "json list \<Rightarrow> json \<times> json \<times> json \<Rightarrow> exn + (json \<times> json \<times> json)" where
  "status_items [] acc = Inr acc"
| "status_items (items # rest) acc =
     (case getitem items ''name'' of
        Inl e \<Rightarrow> Inl e
      | Inr wazuh_agnt_name \<Rightarrow>
          (case getitem items ''status'' of
             Inl e \<Rightarrow> Inl e
           | Inr wazuh_agnt_status \<Rightarrow>
               (case getitem items ''id'' of
                  Inl e \<Rightarrow> Inl e
                | Inr wazuh_agnt_id \<Rightarrow>
                    status_items rest (wazuh_agnt_name, wazuh_agnt_status, wazuh_agnt_id))))"

text \<open>\<^verbatim>\<open>response["data"]["affected_items"]\<close>, as a \<^verbatim>\<open>for\<close> loop draws from it.\<close>

definition affected_items :: "json \<Rightarrow> exn + json list" where
  "affected_items response =
     (case getitem response ''data'' of
        Inl e \<Rightarrow> Inl e
      | Inr d \<Rightarrow> (case getitem d ''affected_items'' of Inl e \<Rightarrow> Inl e | Inr v \<Rightarrow> py_iter v))"

text \<open>
  What \<open>wazuh_agent_status\<close> makes of the pair that \<open>wazuh_api\<close> returned (lines
  257-267): the serializer runs first, then the test, then the loop. The flag tells
  which branch returned (\<open>True\<close>: the branch of the status code 200 and error 0).
\<close>

definition resolve ::
  "world \<Rightarrow> int option \<Rightarrow> json \<Rightarrow> exn + (bool \<times> response_msg \<times> json \<times> json \<times> json)" where
  "resolve w status_code response =
     (case http_codes_serializer w response status_code of
        Inl e \<Rightarrow> Inl e
      | Inr response_msg \<Rightarrow>
          (case is_success status_code response of
             Inl e \<Rightarrow> Inl e
           | Inr ok \<Rightarrow>
               if ok then
                 (case affected_items response of
                    Inl e \<Rightarrow> Inl e
                  | Inr its \<Rightarrow>
                      (case status_items its (JNull, JNull, JNull) of
                         Inl e \<Rightarrow> Inl e
                       | Inr r \<Rightarrow> Inr (True, response_msg, r)))
               else Inr (False, response_msg, JNull, JNull, JNull)))"

definition name_value :: "string option \<Rightarrow> json" where
  "name_value n = (case n of None \<Rightarrow> JNull | Some v \<Rightarrow> JStr v)"

text \<open>\<open>wazuh_agent_status\<close> (lines 245-267).\<close>

definition wazuh_agent_status ::
  "world \<Rightarrow> string option \<Rightarrow> bool \<Rightarrow> state \<Rightarrow> (exn + (json \<times> json \<times> json)) \<times> state" where
  "wazuh_agent_status w agt_name pretty s =
     (case wazuh_api w ''get''
             (if pretty then [Lit ''   '']
              else [Lit ''agents?q=name='', Val (name_value agt_name),
                    Lit ''&wait_for_complete=true''])
             JNull s of
        (Inl e, s1) \<Rightarrow> (Inl e, s1)
      | (Inr (status_code, response), s1) \<Rightarrow>
          (case resolve w status_code response of
             Inl e \<Rightarrow> (Inl e, s1)
           | Inr (ok, response_msg, r) \<Rightarrow>
               if ok
               then (Inr r, logger INFO ''Wazuh agent status: {response_msg}''
                              [LMsg response_msg] s1)
               else (Inr r, logger ERROR ''Unable to get Wazuh agent status: {response_msg}''
                              [LMsg response_msg] s1)))"

text \<open>
  \<open>get_agent_key\<close> (lines 309-322): the key of the first item; \<^verbatim>\<open>None\<close> when there
  is no item or the call did not succeed.
\<close>

definition get_agent_key :: "world \<Rightarrow> json \<Rightarrow> state \<Rightarrow> (exn + json) \<times> state" where
  "get_agent_key w agent_id s =
     (case wazuh_api w ''get'' [Lit ''agents/'', Val agent_id, Lit ''/key''] JNull s of
        (Inl e, s1) \<Rightarrow> (Inl e, s1)
      | (Inr (status_code, response), s1) \<Rightarrow>
          (case http_codes_serializer w response status_code of
             Inl e \<Rightarrow> (Inl e, s1)
           | Inr response_msg \<Rightarrow>
               (case is_success status_code response of
                  Inl e \<Rightarrow> (Inl e, s1)
                | Inr ok \<Rightarrow>
                    if ok then
                      (case affected_items response of
                         Inl e \<Rightarrow> (Inl e, s1)
                       | Inr [] \<Rightarrow>
                           (Inr JNull,
                            logger ERROR
                              ''Unable to retrieve agent key for agent ID {agent_id}: {response_msg}''
                              [LVal agent_id, LMsg response_msg] s1)
                       | Inr (items # rest) \<Rightarrow>
                           (case getitem items ''key'' of
                              Inl e \<Rightarrow> (Inl e, s1)
                            | Inr agent_key \<Rightarrow>
                                (Inr agent_key,
                                 logger INFO
                                   ''Agent key retrieved successfully for agent ID {agent_id}''
                                   [LVal agent_id] s1)))
                    else
                      (Inr JNull,
                       logger ERROR
                         ''Failed to retrieve agent key for agent ID {agent_id}: {response_msg}''
                         [LVal agent_id, LMsg response_msg] s1))))"

section \<open>Creating the agent\<close>

definition node_name :: "world \<Rightarrow> string option" where
  "node_name w =
     (case environ w ''NODE_NAME'' of
        None \<Rightarrow> environ w ''HOSTNAME''
      | Some n \<Rightarrow> if n = [] then environ w ''HOSTNAME'' else Some n)"

definition force :: json where
  "force = JObj [(''enabled'', JBool True),
                 (''disconnected_time'', JObj [(''enabled'', JBool False), (''value'', JStr ''0'')]),
                 (''after_registration_time'', JStr ''1s'')]"

definition py_str :: "string option \<Rightarrow> string" where
  "py_str n = (case n of None \<Rightarrow> ''None'' | Some v \<Rightarrow> v)"

text \<open>
  \<open>add_agent\<close> (lines 202-242) returns the pair of id and key on success. The branch
  of the status code 400 and the last branch only log, so the function falls off its
  end and returns \<^verbatim>\<open>None\<close>: the result is an option.
\<close>

definition add_agent ::
  "world \<Rightarrow> string option \<Rightarrow> json \<Rightarrow> state \<Rightarrow> (exn + (json \<times> json) option) \<times> state" where
  "add_agent w agt_name agt_ip s =
     (case wazuh_api w ''post'' [Lit ''agents/insert'']
             (if truthy agt_ip
              then JObj [(''name'', name_value agt_name), (''ip'', agt_ip), (''force'', force)]
              else JObj [(''name'', JStr (py_str agt_name)), (''force'', force)])
             s of
        (Inl e, s1) \<Rightarrow> (Inl e, s1)
      | (Inr (status_code, response), s1) \<Rightarrow>
          (case http_codes_serializer w response status_code of
             Inl e \<Rightarrow> (Inl e, s1)
           | Inr response_msg \<Rightarrow>
               if status_code = Some 400 then
                 (Inr None,
                  logger ERROR ''During adding Wazuh agent request return {response_msg}''
                    [LMsg response_msg] s1)
               else
                 (case is_success status_code response of
                    Inl e \<Rightarrow> (Inl e, s1)
                  | Inr ok \<Rightarrow>
                      if ok then
                        (case getitem response ''data'' of
                           Inl e \<Rightarrow> (Inl e, s1)
                         | Inr d \<Rightarrow>
                             (case getitem d ''id'' of
                                Inl e \<Rightarrow> (Inl e, s1)
                              | Inr wazuh_agent_id \<Rightarrow>
                                  (case getitem d ''key'' of
                                     Inl e \<Rightarrow> (Inl e, s1)
                                   | Inr wazuh_agent_key \<Rightarrow>
                                       (Inr (Some (wazuh_agent_id, wazuh_agent_key)),
                                        logger INFO
                                          ''Wazuh agent for node {node_name} with ID {wazuh_agent_id} has been added. Response {response_msg}''
                                          [LVal (name_value (node_name w)), LVal wazuh_agent_id,
                                           LMsg response_msg] s1))))
                      else
                        (Inr None,
                         logger ERROR ''Unable to add agent {agt_name}: {response_msg}''
                           [LVal (name_value agt_name), LMsg response_msg] s1))))"

section \<open>Group membership\<close>

text \<open>
  The pre-check of \<open>add_agent_to_group\<close> (lines 173-180): is the agent already in the
  group, according to the response to the membership query.
\<close>

definition already_in_group :: "int option \<Rightarrow> json \<Rightarrow> string \<Rightarrow> exn + bool" where
  "already_in_group status_code response agent_group =
     (case is_success status_code response of
        Inl e \<Rightarrow> Inl e
      | Inr ok \<Rightarrow>
          if ok then
            (case getitem response ''data'' of
               Inl e \<Rightarrow> Inl e
             | Inr d \<Rightarrow>
                 (case getitem d ''affected_items'' of
                    Inl e \<Rightarrow> Inl e
                  | Inr its \<Rightarrow>
                      (case getitem0 its of
                         Inl e \<Rightarrow> Inl e
                       | Inr it \<Rightarrow>
                           (case py_get it ''group'' (JList []) of
                              Inl e \<Rightarrow> Inl e
                            | Inr current_groups \<Rightarrow> py_in agent_group current_groups))))
          else Inr False)"

text \<open>
  One pass through the body of \<open>add_agent_to_group\<close> ends in a \<^verbatim>\<open>return\<close> or, after
  the sleep, in the recursive call.
\<close>

datatype attempt = Finished json | Again

definition group_resource :: "json \<Rightarrow> string \<Rightarrow> resource" where
  "group_resource wazuh_agent_id agent_group =
     [Lit ''agents/'', Val wazuh_agent_id, Lit ''/group/'', Val (JStr agent_group),
      Lit ''?pretty=true&wait_for_complete=true'']"

text \<open>The assignment (lines 183-198), up to the recursive call.\<close>

definition assign_group :: "world \<Rightarrow> json \<Rightarrow> string \<Rightarrow> state \<Rightarrow> (exn + attempt) \<times> state" where
  "assign_group w wazuh_agent_id agent_group s =
     (let wait_time = getenv w ''WAZUH_WAIT_TIME'' ''30'' in
      case wazuh_api w ''put'' (group_resource wazuh_agent_id agent_group) JNull s of
        (Inl e, s1) \<Rightarrow> (Inl e, s1)
      | (Inr (status_code, response), s1) \<Rightarrow>
          (case http_codes_serializer w response status_code of
             Inl e \<Rightarrow> (Inl e, s1)
           | Inr response_msg \<Rightarrow>
               (case is_success status_code response of
                  Inl e \<Rightarrow> (Inl e, s1)
                | Inr ok \<Rightarrow>
                    if ok then
                      (Inr (Finished response),
                       logger INFO
                         ''Wazuh agent id {wazuh_agent_id} has been assigned to group {agent_group}. Response {response_msg}''
                         [LVal wazuh_agent_id, LStr agent_group, LMsg response_msg] s1)
                    else
                      (let s2 = logger ERROR
                                  ''ERROR: Unable to add agent to group {response_msg}, retry''
                                  [LMsg response_msg] s1;
                           s3 = logger INFO
                                  ''Will try to add agent to group again in {wait_time}, sleeping ......''
                                  [LStr wait_time] s2
                       in case time_sleep w wait_time s3 of
                            (Inl e, s4) \<Rightarrow> (Inl e, s4)
                          | (Inr u, s4) \<Rightarrow> (Inr Again, s4)))))"

text \<open>The membership query and pre-check (lines 170-180), then the assignment.\<close>

definition group_attempt :: "world \<Rightarrow> json \<Rightarrow> string \<Rightarrow> state \<Rightarrow> (exn + attempt) \<times> state" where
  "group_attempt w wazuh_agent_id agent_group s =
     (case wazuh_api w ''get'' [Lit ''agents?agents_list='', Val wazuh_agent_id] JNull s of
        (Inl e, s1) \<Rightarrow> (Inl e, s1)
      | (Inr (status_code, response), s1) \<Rightarrow>
          (case http_codes_serializer w response status_code of
             Inl e \<Rightarrow> (Inl e, s1)
           | Inr response_msg \<Rightarrow>
               (case already_in_group status_code response agent_group of
                  Inl e \<Rightarrow> (Inl e, s1)
                | Inr present \<Rightarrow>
                    if present then
                      (Inr (Finished JNull),
                       logger INFO
                         ''Wazuh agent ID {wazuh_agent_id} is already in group {agent_group}. Skipping addition.''
                         [LVal wazuh_agent_id, LStr agent_group] s1)
                    else assign_group w wazuh_agent_id agent_group s1)))"

text \<open>
  \<open>add_agent_to_group\<close> (lines 168-199). Every retry is a recursive call and so one
  more frame on the stack: when the world's limit on the nesting is reached the call
  raises \<^verbatim>\<open>RecursionError\<close> (in the interpreter the limit can also be hit inside the
  calls of the innermost invocation; the model raises at the recursive call). The
  frame is released when the call returns. The result of the recursive call is
  dropped, so a success after a retry returns \<^verbatim>\<open>None\<close>.
\<close>

partial_function (option) add_agent_to_group ::
  "world \<Rightarrow> json \<Rightarrow> string \<Rightarrow> state \<Rightarrow> ((exn + json) \<times> state) option" where
  "add_agent_to_group w wazuh_agent_id agent_group s =
     (case group_attempt w wazuh_agent_id agent_group s of
        (Inl e, s1) \<Rightarrow> Some (Inl e, s1)
      | (Inr (Finished v), s1) \<Rightarrow> Some (Inr v, s1)
      | (Inr Again, s1) \<Rightarrow>
          if recursion_limit w \<le> Suc (frames s1) then Some (Inl RecursionError, s1)
          else
            Option.bind
              (add_agent_to_group w wazuh_agent_id agent_group (s1\<lparr>frames := Suc (frames s1)\<rparr>))
              (\<lambda>(r, s2). Some (case r of Inl e \<Rightarrow> Inl e | Inr v \<Rightarrow> Inr JNull,
                                s2\<lparr>frames := frames s1\<rparr>)))"

declare add_agent_to_group.simps [code]

section \<open>Local collaborators\<close>

text \<open>
  \<open>create_config_file\<close> (lines 93-110): the template is read and two files are
  written; what the file system does is the world's \<open>config_io\<close>.
\<close>

definition create_config_file :: "world \<Rightarrow> state \<Rightarrow> (exn + unit) \<times> state" where
  "create_config_file w s =
     (let s1 = logger INFO ''Create Wazuh agent configuration for node {node_name}''
                 [LVal (name_value (node_name w))] s
      in case config_io w of
           Some e \<Rightarrow> (Inl e, s1)
         | None \<Rightarrow>
             (Inr (),
              logger INFO
                ''Configuration has been generated from template, starting Wazuh agent provisioning''
                [] (emit WriteConfig s1)))"

text \<open>\<open>execute\<close> (lines 281-292): the next subprocess of the world.\<close>

definition execute ::
  "world \<Rightarrow> string list \<Rightarrow> string option \<Rightarrow> state \<Rightarrow> (exn + (string \<times> string \<times> int)) \<times> state" where
  "execute w cmd_list stdin s =
     (let s1 = emit (Exec cmd_list stdin) (s\<lparr>execs := Suc (execs s)\<rparr>)
      in case proc w (execs s) of
           Inl e \<Rightarrow> (Inl e, s1)
         | Inr r \<Rightarrow> (Inr r, s1))"

definition newline :: char where
  "newline = CHR 0x0A"

definition replace_newlines :: "string \<Rightarrow> string" where
  "replace_newlines m = map (\<lambda>c. if c = newline then CHR '' '' else c) m"

text \<open>\<open>wazuh_agent_import_key\<close> (lines 270-278): a failed import is logged only.\<close>

definition wazuh_agent_import_key :: "world \<Rightarrow> string \<Rightarrow> state \<Rightarrow> (exn + unit) \<times> state" where
  "wazuh_agent_import_key w wazuh_agent_key s =
     (case execute w [''/var/ossec/bin/manage_agents'', ''-i'', wazuh_agent_key]
             (Some [CHR ''y'', newline, newline]) s of
        (Inl e, s1) \<Rightarrow> (Inl e, s1)
      | (Inr (std_out, std_err, return_code), s1) \<Rightarrow>
          if return_code \<noteq> 0
          then (Inr (), logger ERROR ''Error during importing key: {msg}''
                          [LStr (replace_newlines std_err)] s1)
          else (Inr (), logger INFO ''Key has been imported {msg}''
                          [LStr (replace_newlines std_out)] s1))"

text \<open>
  \<open>restart_wazuh_agent\<close> (lines 295-307): restarted when a line of the standard
  output holds the marker.
\<close>

definition restart_wazuh_agent :: "world \<Rightarrow> state \<Rightarrow> (exn + unit) \<times> state" where
  "restart_wazuh_agent w s =
     (case execute w [''/var/ossec/bin/wazuh-control'', ''restart''] None s of
        (Inl e, s1) \<Rightarrow> (Inl e, s1)
      | (Inr (command_stdout, command_stderr, return_code), s1) \<Rightarrow>
          if list_ex (contains ''Completed.'') (split_on newline command_stdout)
          then (Inr (), logger INFO ''Wazuh agent has been restarted'' [] s1)
          else (Inr (), logger ERROR ''error during restarting Wazuh agent: {command_stderr}''
                          [LStr command_stderr] s1))"

section \<open>The orchestrator\<close>

text \<open>
  Lines 352-361 of the main block: the first resolution decides between creating the
  agent and fetching the key of the existing one. Unpacking the result of \<open>add_agent\<close>
  into \<^verbatim>\<open>agent_id, agent_key\<close> raises \<^verbatim>\<open>TypeError\<close> when that result is \<^verbatim>\<open>None\<close>.
\<close>

definition obtain_key :: "world \<Rightarrow> state \<Rightarrow> (exn + (json \<times> json)) \<times> state" where
  "obtain_key w s =
     (case wazuh_agent_status w (node_name w) False s of
        (Inl e, s1) \<Rightarrow> (Inl e, s1)
      | (Inr (agent_name, agent_status, agent_id), s1) \<Rightarrow>
          (case (if agent_id = JNull then
                   (case add_agent w (node_name w) JNull s1 of
                      (Inl e, s2) \<Rightarrow> (Inl e, s2)
                    | (Inr None, s2) \<Rightarrow> (Inl TypeError, s2)
                    | (Inr (Some (new_id, new_key)), s2) \<Rightarrow> (Inr (new_id, new_key), s2))
                 else
                   (case get_agent_key w agent_id
                           (logger INFO
                              ''Wazuh agent {agent_name} already exists. Status: {agent_status}''
                              [LVal agent_name, LVal agent_status] s1) of
                      (Inl e, s2) \<Rightarrow> (Inl e, s2)
                    | (Inr k, s2) \<Rightarrow> (Inr (agent_id, k), s2))) of
             (Inl e, s2) \<Rightarrow> (Inl e, s2)
           | (Inr (agent_id', agent_key), s2) \<Rightarrow>
               if agent_key = JNull
               then (Inl (ValueError ''Failed to retrieve agent key.''), s2)
               else (Inr (agent_id', agent_key), s2)))"

text \<open>\<^verbatim>\<open>agent_key.encode()\<close>: a method of strings.\<close>

fun encode :: "json \<Rightarrow> exn + string" where
  "encode (JStr k) = Inr k"
| "encode v = Inl AttributeError"

text \<open>Lines 350-363: the configuration, the key, its import and the restart.\<close>

definition enroll :: "world \<Rightarrow> state \<Rightarrow> (exn + unit) \<times> state" where
  "enroll w s =
     (case create_config_file w s of
        (Inl e, s1) \<Rightarrow> (Inl e, s1)
      | (Inr u, s1) \<Rightarrow>
          (case obtain_key w s1 of
             (Inl e, s2) \<Rightarrow> (Inl e, s2)
           | (Inr (agent_id, agent_key), s2) \<Rightarrow>
               (case encode agent_key of
                  Inl e \<Rightarrow> (Inl e, s2)
                | Inr k \<Rightarrow>
                    (case wazuh_agent_import_key w k s2 of
                       (Inl e, s3) \<Rightarrow> (Inl e, s3)
                     | (Inr u', s3) \<Rightarrow> restart_wazuh_agent w s3))))"

text \<open>
  One iteration of the polling loop (lines 366-380): a resolution, then either the
  exit with what it returned or the sleep.
\<close>

datatype polled = Active "json \<times> json \<times> json" | Waiting

definition poll_step :: "world \<Rightarrow> state \<Rightarrow> (exn + polled) \<times> state" where
  "poll_step w s =
     (let wait_time = getenv w ''WAZUH_WAIT_TIME'' ''10'' in
      case wazuh_agent_status w (node_name w) False s of
        (Inl e, s1) \<Rightarrow> (Inl e, s1)
      | (Inr (agent_name, agent_status, agent_id), s1) \<Rightarrow>
          if agent_status = JStr ''active'' then
            (Inr (Active (agent_name, agent_status, agent_id)),
             logger INFO
               ''Wazuh Agent {agent_name} has been connected to server {join_manager_worker}......''
               [LVal agent_name,
                LStr (getenv w ''JOIN_MANAGER_WORKER_HOST'' ''wazuh-workers.wazuh.svc.cluster.local'')]
               (logger INFO
                  ''Wazuh agent {agent_name} is ready and connected,  status - {agent_status}......''
                  [LVal agent_name, LVal agent_status] s1))
          else
            (case time_sleep w wait_time
                    (logger INFO ''Will check the agent status again in {wait_time}, sleeping....''
                       [LStr wait_time]
                       (logger INFO
                          ''Waiting for Wazuh agent {agent_name} become ready current status is {agent_status}......''
                          [LVal agent_name, LVal agent_status] s1)) of
               (Inl e, s2) \<Rightarrow> (Inl e, s2)
             | (Inr u, s2) \<Rightarrow> (Inr Waiting, s2)))"

text \<open>
  The polling loop (lines 364-380) has no bound on its iterations: \<open>None\<close> is the run
  that never sees the status active.
\<close>

partial_function (option) poll ::
  "world \<Rightarrow> state \<Rightarrow> ((exn + (json \<times> json \<times> json)) \<times> state) option" where
  "poll w s =
     (case poll_step w s of
        (Inl e, s1) \<Rightarrow> Some (Inl e, s1)
      | (Inr (Active r), s1) \<Rightarrow> Some (Inr r, s1)
      | (Inr Waiting, s1) \<Rightarrow> poll w s1)"

declare poll.simps [code]

text \<open>Lines 381-385: one \<open>add_agent_to_group\<close> per configured group, in order.\<close>

fun add_groups ::
  "world \<Rightarrow> json \<Rightarrow> string list \<Rightarrow> state \<Rightarrow> ((exn + unit) \<times> state) option" where
  "add_groups w agent_id [] s = Some (Inr (), s)"
| "add_groups w agent_id (g # gs) s =
     (case add_agent_to_group w agent_id g s of
        None \<Rightarrow> None
      | Some (Inl e, s1) \<Rightarrow> Some (Inl e, s1)
      | Some (Inr v, s1) \<Rightarrow> add_groups w agent_id gs s1)"

text \<open>
  The main block up to the start of the health server (lines 325-385). \<open>None\<close> is a run
  in which the polling loop or a group assignment never ends.
\<close>

definition main :: "world \<Rightarrow> state \<Rightarrow> ((exn + unit) \<times> state) option" where
  "main w s =
     (let groups = getenv w ''WAZUH_GROUPS'' ''default'' in
      case enroll w s of
        (Inl e, s1) \<Rightarrow> Some (Inl e, s1)
      | (Inr u, s1) \<Rightarrow>
          (case poll w s1 of
             None \<Rightarrow> None
           | Some (Inl e, s2) \<Rightarrow> Some (Inl e, s2)
           | Some (Inr (agent_name, agent_status, agent_id), s2) \<Rightarrow>
               if groups = ''default'' then Some (Inr (), s2)
               else add_groups w agent_id (split_on (CHR '','') groups) s2))"

section \<open>Concrete worlds\<close>

text \<open>
  The table \<^verbatim>\<open>requests.status_codes._codes\<close>, with the first name of each entry.
\<close>

definition requests_codes :: "int \<Rightarrow> string option" where
  "requests_codes = map_of
     [(100, ''continue''), (101, ''switching_protocols''), (102, ''processing''),
      (103, ''checkpoint''), (122, ''uri_too_long''), (200, ''ok''), (201, ''created''),
      (202, ''accepted''), (203, ''non_authoritative_info''), (204, ''no_content''),
      (205, ''reset_content''), (206, ''partial_content''), (207, ''multi_status''),
      (208, ''already_reported''), (226, ''im_used''), (300, ''multiple_choices''),
      (301, ''moved_permanently''), (302, ''found''), (303, ''see_other''),
      (304, ''not_modified''), (305, ''use_proxy''), (306, ''switch_proxy''),
      (307, ''temporary_redirect''), (308, ''permanent_redirect''), (400, ''bad_request''),
      (401, ''unauthorized''), (402, ''payment_required''), (403, ''forbidden''),
      (404, ''not_found''), (405, ''method_not_allowed''), (406, ''not_acceptable''),
      (407, ''proxy_authentication_required''), (408, ''request_timeout''), (409, ''conflict''),
      (410, ''gone''), (411, ''length_required''), (412, ''precondition_failed''),
      (413, ''request_entity_too_large''), (414, ''request_uri_too_large''),
      (415, ''unsupported_media_type''), (416, ''requested_range_not_satisfiable''),
      (417, ''expectation_failed''), (418, ''im_a_teapot''), (421, ''misdirected_request''),
      (422, ''unprocessable_entity''), (423, ''locked''), (424, ''failed_dependency''),
      (425, ''unordered_collection''), (426, ''upgrade_required''),
      (428, ''precondition_required''), (429, ''too_many_requests''),
      (431, ''header_fields_too_large''), (444, ''no_response''), (449, ''retry_with''),
      (450, ''blocked_by_windows_parental_controls''), (451, ''unavailable_for_legal_reasons''),
      (499, ''client_closed_request''), (500, ''internal_server_error''),
      (501, ''not_implemented''), (502, ''bad_gateway''), (503, ''service_unavailable''),
      (504, ''gateway_timeout''), (505, ''http_version_not_supported''),
      (506, ''variant_also_negotiates''), (507, ''insufficient_storage''),
      (509, ''bandwidth_limit_exceeded''), (510, ''not_extended''),
      (511, ''network_authentication_required'')]"

text \<open>
  \<^verbatim>\<open>int()\<close> on a string of ASCII characters: blanks around the literal are
  stripped, a sign may come first, then decimal digits, between any two of which one
  underscore may stand; a literal of more than 4300 digits is refused, as is anything
  else. (Characters outside ASCII are not modelled.)
\<close>

definition is_space :: "char \<Rightarrow> bool" where
  "is_space c =
     (c \<in> set [CHR 0x09, CHR 0x0A, CHR 0x0B, CHR 0x0C, CHR 0x0D, CHR 0x1C, CHR 0x1D, CHR 0x1E,
                CHR 0x1F, CHR 0x20])"

definition strip :: "string \<Rightarrow> string" where
  "strip s = rev (dropWhile is_space (rev (dropWhile is_space s)))"

definition digit :: "char \<Rightarrow> int option" where
  "digit c = map_of (zip ''0123456789'' [0, 1, 2, 3, 4, 5, 6, 7, 8, 9]) c"

text \<open>The rest of a literal after a digit, with the value read so far.\<close>

fun decimal :: "string \<Rightarrow> int \<Rightarrow> int option" where
  "decimal [] acc = Some acc"
| "decimal [c] acc = (case digit c of None \<Rightarrow> None | Some d \<Rightarrow> Some (10 * acc + d))"
| "decimal (c # c' # cs) acc =
     (if c = CHR ''_''
      then (case digit c' of None \<Rightarrow> None | Some d \<Rightarrow> decimal cs (10 * acc + d))
      else (case digit c of None \<Rightarrow> None | Some d \<Rightarrow> decimal (c' # cs) (10 * acc + d)))"

definition unsigned :: "string \<Rightarrow> int option" where
  "unsigned s =
     (case s of
        [] \<Rightarrow> None
      | c # cs \<Rightarrow>
          (case digit c of
             None \<Rightarrow> None
           | Some d \<Rightarrow>
               if 4300 < length (filter (\<lambda>x. x \<noteq> CHR ''_'') s) then None else decimal cs d))"

definition int_of_string :: "string \<Rightarrow> int option" where
  "int_of_string s =
     (case strip s of
        [] \<Rightarrow> None
      | c # cs \<Rightarrow>
          if c = CHR ''-'' then map_option uminus (unsigned cs)
          else if c = CHR ''+'' then unsigned cs
          else unsigned (c # cs))"

definition json_response :: "int \<Rightarrow> json \<Rightarrow> outcome" where
  "json_response c j = Responds (Response c [] (Inr j))"

definition token_response :: "string \<Rightarrow> outcome" where
  "token_response t = json_response 200 (JObj [(''data'', JObj [(''token'', JStr t)])])"

definition agent_item :: "string \<Rightarrow> string \<Rightarrow> string \<Rightarrow> json" where
  "agent_item n st i = JObj [(''name'', JStr n), (''status'', JStr st), (''id'', JStr i)]"

definition items_body :: "json list \<Rightarrow> json" where
  "items_body its = JObj [(''error'', JInt 0), (''data'', JObj [(''affected_items'', JList its)])]"

definition error_body :: json where
  "error_body = JObj [(''error'', JInt 1)]"

definition refused :: outcome where
  "refused = Raises (RequestException ''connection refused'')"

text \<open>
  A world that answers the API requests from a script, in order, and refuses the
  connection once the script is used up. Every login succeeds, the clock stands
  still, every subprocess completes and the configuration files are written. The C
  time type holds 64 bits of nanoseconds, and 950 invocations of
  \<open>add_agent_to_group\<close> fit under the limit on the depth of recursion.
\<close>

definition lab :: "(string \<Rightarrow> string option) \<Rightarrow> outcome list \<Rightarrow> world" where
  "lab env script =
     \<lparr>clock = (\<lambda>k. 1000),
      login = (\<lambda>k. token_response ''secret''),
      api = (\<lambda>k. if k < length script then script ! k else refused),
      proc = (\<lambda>k. Inr (''Completed.'', [], 0)),
      config_io = None,
      environ = env,
      codes = requests_codes,
      py_int = int_of_string,
      sleep_limit = 9223372036,
      recursion_limit = 950\<rparr>"

definition node_env :: "string \<Rightarrow> string option" where
  "node_env = [''NODE_NAME'' \<mapsto> ''n1'']"

section \<open>Observations on a run\<close>

text \<open>
  The calls of \<open>wazuh_api\<close> and the sleeps of a trace, in order, and the number of
  login requests in it.
\<close>

fun api_call_of :: "event \<Rightarrow> (string \<times> resource \<times> json) option" where
  "api_call_of (ApiCall m r d) = Some (m, r, d)"
| "api_call_of e = None"

fun sleep_of :: "event \<Rightarrow> int option" where
  "sleep_of (Sleep n) = Some n"
| "sleep_of e = None"

definition calls_of :: "event list \<Rightarrow> (string \<times> resource \<times> json) list" where
  "calls_of evs = List.map_filter api_call_of evs"

definition sleeps_of :: "event list \<Rightarrow> int list" where
  "sleeps_of evs = List.map_filter sleep_of evs"

definition login_count :: "event list \<Rightarrow> nat" where
  "login_count evs = length (filter (\<lambda>e. e = HttpLogin) evs)"

text \<open>A login that yields a token: status code 200 and a body with a token in it.\<close>

definition login_ok :: "outcome \<Rightarrow> bool" where
  "login_ok out =
     (case out of
        Raises e \<Rightarrow> False
      | Responds r \<Rightarrow>
          resp_status r = 200 \<and>
          (case resp_json r of
             Inl e \<Rightarrow> False
           | Inr j \<Rightarrow>
               (case getitem j ''data'' of
                  Inl e \<Rightarrow> False
                | Inr d \<Rightarrow> (case getitem d ''token'' of Inl e \<Rightarrow> False | Inr t \<Rightarrow> True))))"

text \<open>What \<open>wazuh_api\<close> returns for the outcome of the request it sends.\<close>

definition api_result :: "outcome \<Rightarrow> exn + (int option \<times> json)" where
  "api_result out =
     (case out of
        Raises e \<Rightarrow> if is_Exception e then Inr (None, JObj []) else Inl e
      | Responds r \<Rightarrow>
          (case resp_json r of
             Inl e \<Rightarrow> if is_Exception e then Inr (None, JObj []) else Inl e
           | Inr j \<Rightarrow> Inr (Some (resp_status r), j)))"

text \<open>A world in which every login is refused with the status code 401.\<close>

definition denied :: world where
  "denied = (lab node_env [])\<lparr>login := (\<lambda>k. Responds (Response 401 ''denied'' (Inr error_body)))\<rparr>"

text \<open>The message an exception carries.\<close>

fun exn_message :: "exn \<Rightarrow> string" where
  "exn_message (Exception m) = m"
| "exn_message (ValueError m) = m"
| "exn_message (RequestException m) = m"
| "exn_message (JSONDecodeError m) = m"
| "exn_message (OSError m) = m"
| "exn_message e = []"

text \<open>A state whose cached token is fresh at the lab's clock, and one whose token is stale.\<close>

definition fresh :: state where
  "fresh = init_state\<lparr>cached_token := JStr ''old'', token_expiration := 2000\<rparr>"

definition stale :: state where
  "stale = init_state\<lparr>cached_token := JStr ''old'', token_expiration := 500\<rparr>"

text \<open>An item of the agent list that has the three fields the resolver reads.\<close>

definition has_fields :: "json \<Rightarrow> bool" where
  "has_fields it =
     (case getitem it ''name'' of
        Inl e \<Rightarrow> False
      | Inr n \<Rightarrow>
          (case getitem it ''status'' of
             Inl e \<Rightarrow> False
           | Inr st \<Rightarrow> (case getitem it ''id'' of Inl e \<Rightarrow> False | Inr i \<Rightarrow> True)))"

text \<open>
  The node \<^verbatim>\<open>n1\<close> is unknown to the server and the insert is answered with the
  status code 400.
\<close>

definition insert_rejected :: world where
  "insert_rejected = lab node_env [json_response 200 (items_body []), json_response 400 error_body]"

text \<open>No API request gets through: the transport raises every time.\<close>

definition offline :: world where
  "offline = lab node_env []"

text \<open>The agent list holds two records for the node; the last one is active.\<close>

definition two_records :: world where
  "two_records = lab node_env
     [json_response 200
        (items_body [agent_item ''n1'' ''disconnected'' ''001'', agent_item ''n1'' ''active'' ''002''])]"

text \<open>The server answers the first API request with the status code 500.\<close>

definition server_error :: world where
  "server_error = lab node_env [json_response 500 error_body]"

text \<open>The payload of the insert request when no address is given (lines 221-228).\<close>

definition insert_data :: "string option \<Rightarrow> json" where
  "insert_data n = JObj [(''name'', JStr (py_str n)), (''force'', force)]"

text \<open>
  The membership query is answered, with an agent in no group; the transport of the
  assignment request raises.
\<close>

definition assign_refused :: world where
  "assign_refused = lab node_env [json_response 200 (items_body [agent_item ''n1'' ''active'' ''001''])]"

text \<open>
  The groups the membership response reports for the agent:
  \<^verbatim>\<open>response["data"]["affected_items"][0].get("group", [])\<close>.
\<close>

definition current_groups :: "json \<Rightarrow> exn + json" where
  "current_groups response =
     (case getitem response ''data'' of
        Inl e \<Rightarrow> Inl e
      | Inr d \<Rightarrow>
          (case getitem d ''affected_items'' of
             Inl e \<Rightarrow> Inl e
           | Inr its \<Rightarrow>
               (case getitem0 its of
                  Inl e \<Rightarrow> Inl e
                | Inr it \<Rightarrow> py_get it ''group'' (JList []))))"

text \<open>
  What a caller's success test makes of the outcome of its request: the serializer,
  then \<open>is_success\<close>. And what the pre-check of \<open>add_agent_to_group\<close> makes of the
  outcome of the membership query.
\<close>

definition verdict :: "world \<Rightarrow> outcome \<Rightarrow> exn + bool" where
  "verdict w out =
     (case api_result out of
        Inl e \<Rightarrow> Inl e
      | Inr (c, body) \<Rightarrow>
          (case http_codes_serializer w body c of
             Inl e \<Rightarrow> Inl e
           | Inr m \<Rightarrow> is_success c body))"

definition precheck :: "world \<Rightarrow> string \<Rightarrow> outcome \<Rightarrow> exn + bool" where
  "precheck w agent_group out =
     (case api_result out of
        Inl e \<Rightarrow> Inl e
      | Inr (c, body) \<Rightarrow>
          (case http_codes_serializer w body c of
             Inl e \<Rightarrow> Inl e
           | Inr m \<Rightarrow> already_in_group c body agent_group))"

text \<open>The status a resolution reports for the outcome of its request.\<close>

definition observed :: "world \<Rightarrow> outcome \<Rightarrow> exn + json" where
  "observed w out =
     (case api_result out of
        Inl e \<Rightarrow> Inl e
      | Inr (c, body) \<Rightarrow>
          (case resolve w c body of
             Inl e \<Rightarrow> Inl e
           | Inr (ok, m, n, st, i) \<Rightarrow> Inr st))"

text \<open>An agent record with its groups, and the answer of a successful assignment.\<close>

definition grouped_item :: "string \<Rightarrow> string list \<Rightarrow> json" where
  "grouped_item i gs = JObj [(''id'', JStr i), (''group'', JList (map JStr gs))]"

definition ok_body :: json where
  "ok_body = JObj [(''error'', JInt 0)]"

text \<open>The agent is in the group web already; the agent is in no group and is assigned.\<close>

definition member_already :: world where
  "member_already = lab node_env [json_response 200 (items_body [grouped_item ''001'' [''default'', ''web'']])]"

definition assigned_at_once :: world where
  "assigned_at_once = lab node_env
     [json_response 200 (items_body [grouped_item ''001'' [''default'']]), json_response 200 ok_body]"

text \<open>The assignment is rejected twice and accepted the third time.\<close>

definition third_time_lucky :: world where
  "third_time_lucky = lab node_env
     [json_response 200 (items_body [grouped_item ''001'' [''default'']]), json_response 500 error_body,
      json_response 200 (items_body [grouped_item ''001'' [''default'']]), json_response 500 error_body,
      json_response 200 (items_body [grouped_item ''001'' [''default'']]), json_response 200 ok_body]"

text \<open>The resolutions report pending, pending, active; and pending for ever.\<close>

definition becomes_active :: world where
  "becomes_active = lab node_env
     [json_response 200 (items_body [agent_item ''n1'' ''pending'' ''001'']),
      json_response 200 (items_body [agent_item ''n1'' ''pending'' ''001'']),
      json_response 200 (items_body [agent_item ''n1'' ''active'' ''001''])]"

definition never_active :: world where
  "never_active = (lab node_env [])
     \<lparr>api := (\<lambda>k. json_response 200 (items_body [agent_item ''n1'' ''pending'' ''001'']))\<rparr>"

text \<open>
  Does a resolution of this outcome report the status active, or another status
  (exceptions are neither).
\<close>

definition reports_active :: "world \<Rightarrow> outcome \<Rightarrow> bool" where
  "reports_active w out = (observed w out = Inr (JStr ''active''))"

definition reports_waiting :: "world \<Rightarrow> outcome \<Rightarrow> bool" where
  "reports_waiting w out =
     (case observed w out of Inl e \<Rightarrow> False | Inr st \<Rightarrow> st \<noteq> JStr ''active'')"

text \<open>The resource of the status query for a node.\<close>

definition status_query :: "string option \<Rightarrow> string \<times> resource \<times> json" where
  "status_query n =
     (''get'', [Lit ''agents?q=name='', Val (name_value n), Lit ''&wait_for_complete=true''], JNull)"

text \<open>
  One resolution reports pending; the transport of the next status query raises.
\<close>

definition pending_then_refused :: world where
  "pending_then_refused = lab node_env [json_response 200 (items_body [agent_item ''n1'' ''pending'' ''001''])]"

section \<open>Properties\<close>

lemma calls_of_append: "calls_of (xs @ ys) = calls_of xs @ calls_of ys"
  by (simp add: calls_of_def map_filter_def)

lemma sleeps_of_append: "sleeps_of (xs @ ys) = sleeps_of xs @ sleeps_of ys"
  by (simp add: sleeps_of_def map_filter_def)

lemma login_count_append: "login_count (xs @ ys) = login_count xs + login_count ys"
  by (simp add: login_count_def)

lemma calls_of_simps:
  "calls_of [] = []"
  "calls_of (e # evs) = (case api_call_of e of None \<Rightarrow> calls_of evs | Some c \<Rightarrow> c # calls_of evs)"
  by (simp_all add: calls_of_def map_filter_def split: option.splits)

lemma sleeps_of_simps:
  "sleeps_of [] = []"
  "sleeps_of (e # evs) = (case sleep_of e of None \<Rightarrow> sleeps_of evs | Some c \<Rightarrow> c # sleeps_of evs)"
  by (simp_all add: sleeps_of_def map_filter_def split: option.splits)

lemma login_count_simps:
  "login_count [] = 0"
  "login_count (e # evs) = (if e = HttpLogin then Suc (login_count evs) else login_count evs)"
  by (simp_all add: login_count_def)

lemmas obs = calls_of_append sleeps_of_append login_count_append calls_of_simps sleeps_of_simps login_count_simps

lemma get_auth_token_cached:
  assumes "truthy (cached_token s)" "clock w (ticks s) < token_expiration s"
  shows "get_auth_token w s =
     (Inr (cached_token s),
      logger INFO ''Token is not expired, will use the cached token'' [] (s\<lparr>ticks := Suc (ticks s)\<rparr>))"
  using assms by (simp add: get_auth_token_def time_time_def)

lemma get_auth_token_frame:
  "calls (snd (get_auth_token w s)) = calls s \<and>
   execs (snd (get_auth_token w s)) = execs s \<and>
   calls_of (trace (snd (get_auth_token w s))) = calls_of (trace s) \<and>
   sleeps_of (trace (snd (get_auth_token w s))) = sleeps_of (trace s)"
  by (simp add: get_auth_token_def time_time_def logger_def emit_def obs Let_def
      split: outcome.splits sum.splits prod.splits)

lemma get_auth_token_ok:
  assumes "\<forall>k. login_ok (login w k)"
  shows "\<exists>tok. fst (get_auth_token w s) = Inr tok"
proof -
  have "login_ok (login w (logins s))" using assms by blast
  then show ?thesis
    by (auto simp add: get_auth_token_def time_time_def logger_def emit_def login_ok_def Let_def
      split: outcome.splits sum.splits prod.splits)
qed

lemma wazuh_api_sends:
  assumes "\<forall>k. login_ok (login w k)"
  shows "fst (wazuh_api w m r d s) = api_result (api w (calls s))"
    and "calls (snd (wazuh_api w m r d s)) = Suc (calls s)"
proof -
  let ?s0 = "emit (ApiCall m r d) s"
  obtain tok where t: "fst (get_auth_token w ?s0) = Inr tok"
    using get_auth_token_ok[OF assms] by blast
  have c: "calls (snd (get_auth_token w ?s0)) = calls s"
    using get_auth_token_frame[of w ?s0] by (simp add: emit_def)
  show "fst (wazuh_api w m r d s) = api_result (api w (calls s))"
    using t c
    by (simp add: wazuh_api_def wazuh_api_try_def api_result_def split_beta Let_def emit_def logger_def
        split: outcome.splits sum.splits)
  show "calls (snd (wazuh_api w m r d s)) = Suc (calls s)"
    using t c
    by (simp add: wazuh_api_def wazuh_api_try_def api_result_def split_beta Let_def emit_def logger_def
        split: outcome.splits sum.splits)
qed

lemma wazuh_api_frame:
  "calls_of (trace (snd (wazuh_api w m r d s))) = calls_of (trace s) @ [(m, r, d)]"
  "sleeps_of (trace (snd (wazuh_api w m r d s))) = sleeps_of (trace s)"
  "execs (snd (wazuh_api w m r d s)) = execs s"
  using get_auth_token_frame[of w "emit (ApiCall m r d) s"]
  by (simp_all add: wazuh_api_def wazuh_api_try_def split_beta Let_def emit_def logger_def obs
        split: outcome.splits sum.splits)



lemmas run_defs =
  lab_def init_state_def emit_def logger_def time_time_def time_sleep_def getenv_def
  get_auth_token_def http_verb_def lower_def lower_char_def wazuh_api_try_def wazuh_api_def
  code_desc_def http_codes_serializer_def is_success_def affected_items_def resolve_def
  name_value_def wazuh_agent_status_def get_agent_key_def node_name_def force_def py_str_def
  add_agent_def already_in_group_def group_resource_def assign_group_def group_attempt_def
  create_config_file_def execute_def newline_def replace_newlines_def
  wazuh_agent_import_key_def restart_wazuh_agent_def obtain_key_def enroll_def poll_step_def
  main_def requests_codes_def is_space_def strip_def digit_def unsigned_def int_of_string_def json_response_def token_response_def
  agent_item_def items_body_def error_body_def refused_def node_env_def Let_def

subsection \<open>The API client never raises an \<open>Exception\<close>\<close>

text \<open>
  Claim C2. For every method and every resource, when an exception of the
  \<^verbatim>\<open>Exception\<close> hierarchy is raised inside \<open>wazuh_api\<close> (by the token acquisition, by
  the transport of the request, or by the decoding of the body), the call returns the
  pair \<^verbatim>\<open>(None, {})\<close> to its caller and raises nothing.
\<close>

theorem wazuh_api_exception_yields_null:
  assumes "is_Exception e"
    and "fst (get_auth_token w (emit (ApiCall method resource data) s)) = Inl e \<or>
         (\<exists>tok. fst (get_auth_token w (emit (ApiCall method resource data) s)) = Inr tok \<and>
            (api w (calls s) = Raises e \<or>
             (\<exists>r. api w (calls s) = Responds r \<and> resp_json r = Inl e)))"
  shows "fst (wazuh_api w method resource data s) = Inr (None, JObj [])"
proof -
  let ?s0 = "emit (ApiCall method resource data) s"
  have c: "calls (snd (get_auth_token w ?s0)) = calls s"
    using get_auth_token_frame[of w ?s0] by (simp add: emit_def)
  from assms(2) show ?thesis
  proof
    assume "fst (get_auth_token w ?s0) = Inl e"
    then show ?thesis using assms(1)
      by (simp add: wazuh_api_def wazuh_api_try_def split_beta)
  next
    assume "\<exists>tok. fst (get_auth_token w ?s0) = Inr tok \<and>
            (api w (calls s) = Raises e \<or>
             (\<exists>r. api w (calls s) = Responds r \<and> resp_json r = Inl e))"
    then obtain tok where t: "fst (get_auth_token w ?s0) = Inr tok"
      and a: "api w (calls s) = Raises e \<or> (\<exists>r. api w (calls s) = Responds r \<and> resp_json r = Inl e)"
      by blast
    from a show ?thesis
    proof
      assume "api w (calls s) = Raises e"
      then show ?thesis using assms(1) t c
        by (simp add: wazuh_api_def wazuh_api_try_def split_beta Let_def)
    next
      assume "\<exists>r. api w (calls s) = Responds r \<and> resp_json r = Inl e"
      then obtain r where "api w (calls s) = Responds r" "resp_json r = Inl e" by blast
      then show ?thesis using assms(1) t c
        by (simp add: wazuh_api_def wazuh_api_try_def split_beta Let_def)
    qed
  qed
qed

theorem wazuh_api_exception_yields_null_witness:
  "is_Exception (RequestException ''connection refused'') \<and>
   api (lab node_env []) (calls init_state) = Raises (RequestException ''connection refused'') \<and>
   fst (wazuh_api (lab node_env []) ''put'' [Lit ''agents''] JNull init_state) = Inr (None, JObj [])"
proof -
  have a: "is_Exception (RequestException ''connection refused'')" by simp
  have b: "api (lab node_env []) (calls init_state) = Raises (RequestException ''connection refused'')"
    by (simp add: run_defs)
  have t: "fst (get_auth_token (lab node_env [])
                  (emit (ApiCall ''put'' [Lit ''agents''] JNull) init_state)) = Inr (JStr ''secret'')"
    by (simp add: run_defs)
  have c: "fst (wazuh_api (lab node_env []) ''put'' [Lit ''agents''] JNull init_state)
             = Inr (None, JObj [])"
    by (rule wazuh_api_exception_yields_null [OF a]) (use b t in blast)
  from a b c show ?thesis by blast
qed

lemma get_auth_token_denied:
  assumes "\<not> (truthy (cached_token s) \<and> clock w (ticks s) < token_expiration s)"
    and "login w (logins s) = Responds r" and "resp_status r \<noteq> 200"
  shows "fst (get_auth_token w s) = Inl (Exception ''Failed to get authentication token'')"
    and "cached_token (snd (get_auth_token w s)) = cached_token s"
    and "token_expiration (snd (get_auth_token w s)) = token_expiration s"
    and "logins (snd (get_auth_token w s)) = Suc (logins s)"
  using assms
  by (auto simp add: get_auth_token_def time_time_def logger_def emit_def Let_def)

subsection \<open>A failed login does not leave the API client\<close>

text \<open>
  Claim C8, as amended. When no usable token is cached and the login answers with a
  status code other than 200, \<open>get_auth_token\<close> raises, but the call sits inside the
  \<^verbatim>\<open>try\<close> block of \<open>wazuh_api\<close>: the error is caught there, and \<open>wazuh_api\<close> returns
  \<^verbatim>\<open>(None, {})\<close> to its caller, for every method, resource and payload.
\<close>

theorem login_failure_is_swallowed:
  assumes "\<not> (truthy (cached_token s) \<and> clock w (ticks s) < token_expiration s)"
    and "login w (logins s) = Responds r" and "resp_status r \<noteq> 200"
  shows "fst (get_auth_token w s) = Inl (Exception ''Failed to get authentication token'') \<and>
         fst (wazuh_api w method resource data s) = Inr (None, JObj [])"
proof -
  let ?s0 = "emit (ApiCall method resource data) s"
  have "fst (get_auth_token w ?s0) = Inl (Exception ''Failed to get authentication token'')"
    using assms by (intro get_auth_token_denied(1)[of ?s0 w r]) (simp_all add: emit_def)
  then have "fst (wazuh_api w method resource data s) = Inr (None, JObj [])"
    by (simp add: wazuh_api_def wazuh_api_try_def split_beta)
  then show ?thesis using get_auth_token_denied(1)[OF assms] by simp
qed

theorem login_failure_is_swallowed_witness:
  "\<not> (truthy (cached_token init_state) \<and>
      clock denied (ticks init_state) < token_expiration init_state) \<and>
   login denied (logins init_state) = Responds (Response 401 ''denied'' (Inr error_body)) \<and>
   resp_status (Response 401 ''denied'' (Inr error_body)) \<noteq> 200 \<and>
   fst (get_auth_token denied init_state) = Inl (Exception ''Failed to get authentication token'') \<and>
   fst (wazuh_api denied ''get'' [Lit ''agents''] JNull init_state) = Inr (None, JObj [])"
proof -
  have a: "\<not> (truthy (cached_token init_state) \<and>
             clock denied (ticks init_state) < token_expiration init_state)"
    by (simp add: init_state_def)
  have b: "login denied (logins init_state) = Responds (Response 401 ''denied'' (Inr error_body))"
    by (simp add: denied_def lab_def)
  have c: "resp_status (Response 401 ''denied'' (Inr error_body)) \<noteq> 200" by simp
  note r = login_failure_is_swallowed [OF a b c, of "''get''" "[Lit ''agents'']" JNull]
  from a b c r show ?thesis by blast
qed

text \<open>
  The claim as stated fails: with every login refused, the first call of \<open>wazuh_api\<close>
  returns a result and raises nothing.
\<close>

theorem login_failure_propagates_counterexample:
  "\<not> (\<exists>e. fst (wazuh_api denied ''get'' [Lit ''agents''] JNull init_state) = Inl e)"
  by (simp add: denied_def run_defs)

lemma get_auth_token_renewed:
  assumes "\<not> (truthy (cached_token s) \<and> clock w (ticks s) < token_expiration s)"
    and "login w (logins s) = Responds r" and "resp_status r = 200" and "resp_json r = Inr j"
    and "getitem j ''data'' = Inr d" and "getitem d ''token'' = Inr tok"
  shows "fst (get_auth_token w s) = Inr tok"
    and "cached_token (snd (get_auth_token w s)) = tok"
    and "token_expiration (snd (get_auth_token w s)) =
           clock w (ticks s + (if truthy (cached_token s) then 1 else 0)) + 300"
  using assms
  by (auto simp add: get_auth_token_def time_time_def logger_def emit_def Let_def)

lemma get_auth_token_one_login:
  assumes "\<not> (truthy (cached_token s) \<and> clock w (ticks s) < token_expiration s)"
  shows "logins (snd (get_auth_token w s)) = Suc (logins s)"
    and "login_count (trace (snd (get_auth_token w s))) = Suc (login_count (trace s))"
  using assms
  by (auto simp add: get_auth_token_def time_time_def logger_def emit_def Let_def obs
      split: outcome.splits sum.splits)

lemma get_auth_token_denied_log:
  assumes "\<not> (truthy (cached_token s) \<and> clock w (ticks s) < token_expiration s)"
    and "login w (logins s) = Responds r" and "resp_status r \<noteq> 200"
  shows "last (trace (snd (get_auth_token w s))) =
           Log ERROR ''Failed to get authentication token: {response.content}'' [LStr (resp_content r)]"
  using assms
  by (auto simp add: get_auth_token_def time_time_def logger_def emit_def Let_def)

subsection \<open>The token cache\<close>

text \<open>
  Claim C3, as amended. At every call: when the cached token is truthy (a token is
  cached) and the clock is strictly before the recorded expiry, \<open>get_auth_token\<close>
  returns the cached value, leaves token and expiry as they are and sends no login
  request. Otherwise it sends exactly one login request; when that answers with the
  status code 200 and a body holding a token, the token is returned and stored with the
  expiry set to the clock's next reading plus 300 seconds; when it answers with another
  status code, the response body is logged, the error raised is the fixed message
  \<^verbatim>\<open>Failed to get authentication token\<close>, and token and expiry stay unchanged.
\<close>

theorem get_auth_token_cache:
  fixes w :: world and s :: state
  defines "s' \<equiv> snd (get_auth_token w s)"
  shows
  "(truthy (cached_token s) \<and> clock w (ticks s) < token_expiration s \<longrightarrow>
      fst (get_auth_token w s) = Inr (cached_token s) \<and>
      cached_token s' = cached_token s \<and> token_expiration s' = token_expiration s \<and>
      logins s' = logins s \<and> login_count (trace s') = login_count (trace s)) \<and>
   (\<not> (truthy (cached_token s) \<and> clock w (ticks s) < token_expiration s) \<longrightarrow>
      logins s' = Suc (logins s) \<and> login_count (trace s') = Suc (login_count (trace s)) \<and>
      (\<forall>r j d tok.
         login w (logins s) = Responds r \<and> resp_status r = 200 \<and> resp_json r = Inr j \<and>
         getitem j ''data'' = Inr d \<and> getitem d ''token'' = Inr tok \<longrightarrow>
         fst (get_auth_token w s) = Inr tok \<and> cached_token s' = tok \<and>
         token_expiration s' =
           clock w (ticks s + (if truthy (cached_token s) then 1 else 0)) + 300) \<and>
      (\<forall>r. login w (logins s) = Responds r \<and> resp_status r \<noteq> 200 \<longrightarrow>
         fst (get_auth_token w s) = Inl (Exception ''Failed to get authentication token'') \<and>
         cached_token s' = cached_token s \<and> token_expiration s' = token_expiration s \<and>
         last (trace s') =
           Log ERROR ''Failed to get authentication token: {response.content}''
             [LStr (resp_content r)]))"
proof (intro conjI impI allI)
  assume a: "truthy (cached_token s) \<and> clock w (ticks s) < token_expiration s"
  then have e: "get_auth_token w s =
     (Inr (cached_token s),
      logger INFO ''Token is not expired, will use the cached token'' [] (s\<lparr>ticks := Suc (ticks s)\<rparr>))"
    by (simp add: get_auth_token_cached)
  show "fst (get_auth_token w s) = Inr (cached_token s)" by (simp add: e)
  show "cached_token s' = cached_token s" by (simp add: s'_def e logger_def emit_def)
  show "token_expiration s' = token_expiration s" by (simp add: s'_def e logger_def emit_def)
  show "logins s' = logins s" by (simp add: s'_def e logger_def emit_def)
  show "login_count (trace s') = login_count (trace s)"
    by (simp add: s'_def e logger_def emit_def obs)
next
  assume a: "\<not> (truthy (cached_token s) \<and> clock w (ticks s) < token_expiration s)"
  show "logins s' = Suc (logins s)"
    unfolding s'_def by (rule get_auth_token_one_login(1)[OF a])
  show "login_count (trace s') = Suc (login_count (trace s))"
    unfolding s'_def by (rule get_auth_token_one_login(2)[OF a])
  {
    fix r j d tok
    assume h: "login w (logins s) = Responds r \<and> resp_status r = 200 \<and> resp_json r = Inr j \<and>
         getitem j ''data'' = Inr d \<and> getitem d ''token'' = Inr tok"
    then have h1: "login w (logins s) = Responds r" and h2: "resp_status r = 200"
      and h3: "resp_json r = Inr j" and h4: "getitem j ''data'' = Inr d"
      and h5: "getitem d ''token'' = Inr tok" by simp_all
    show "fst (get_auth_token w s) = Inr tok"
      by (rule get_auth_token_renewed(1)[OF a h1 h2 h3 h4 h5])
    show "cached_token s' = tok"
      unfolding s'_def by (rule get_auth_token_renewed(2)[OF a h1 h2 h3 h4 h5])
    show "token_expiration s' =
           clock w (ticks s + (if truthy (cached_token s) then 1 else 0)) + 300"
      unfolding s'_def by (rule get_auth_token_renewed(3)[OF a h1 h2 h3 h4 h5])
  }
  {
    fix r
    assume h: "login w (logins s) = Responds r \<and> resp_status r \<noteq> 200"
    then have h1: "login w (logins s) = Responds r" and h2: "resp_status r \<noteq> 200" by simp_all
    show "fst (get_auth_token w s) = Inl (Exception ''Failed to get authentication token'')"
      by (rule get_auth_token_denied(1)[OF a h1 h2])
    show "cached_token s' = cached_token s"
      unfolding s'_def by (rule get_auth_token_denied(2)[OF a h1 h2])
    show "token_expiration s' = token_expiration s"
      unfolding s'_def by (rule get_auth_token_denied(3)[OF a h1 h2])
    show "last (trace s') =
           Log ERROR ''Failed to get authentication token: {response.content}''
             [LStr (resp_content r)]"
      unfolding s'_def by (rule get_auth_token_denied_log[OF a h1 h2])
  }
qed





theorem get_auth_token_cache_witness:
  "(truthy (cached_token fresh) \<and>
      clock (lab node_env []) (ticks fresh) < token_expiration fresh) \<and>
   fst (get_auth_token (lab node_env []) fresh) = Inr (JStr ''old'') \<and>
   login_count (trace (snd (get_auth_token (lab node_env []) fresh))) = 0 \<and>
   \<not> (truthy (cached_token stale) \<and>
       clock (lab node_env []) (ticks stale) < token_expiration stale) \<and>
   fst (get_auth_token (lab node_env []) stale) = Inr (JStr ''secret'') \<and>
   cached_token (snd (get_auth_token (lab node_env []) stale)) = JStr ''secret'' \<and>
   token_expiration (snd (get_auth_token (lab node_env []) stale)) = 1300 \<and>
   login_count (trace (snd (get_auth_token (lab node_env []) stale))) = 1 \<and>
   fst (get_auth_token denied init_state) = Inl (Exception ''Failed to get authentication token'') \<and>
   cached_token (snd (get_auth_token denied init_state)) = JNull \<and>
   token_expiration (snd (get_auth_token denied init_state)) = 0"
proof -
  let ?w = "lab node_env []"
  let ?j = "JObj [(''data'', JObj [(''token'', JStr ''secret'')])]"
  let ?r = "Response 200 [] (Inr ?j)"
  let ?d = "Response 401 ''denied'' (Inr error_body)"
  have h1: "truthy (cached_token fresh) \<and> clock ?w (ticks fresh) < token_expiration fresh"
    by (simp add: fresh_def init_state_def lab_def)
  have h2: "\<not> (truthy (cached_token stale) \<and> clock ?w (ticks stale) < token_expiration stale)"
    by (simp add: stale_def init_state_def lab_def)
  have h3: "login ?w (logins stale) = Responds ?r \<and> resp_status ?r = 200 \<and> resp_json ?r = Inr ?j \<and>
      getitem ?j ''data'' = Inr (JObj [(''token'', JStr ''secret'')]) \<and>
      getitem (JObj [(''token'', JStr ''secret'')]) ''token'' = Inr (JStr ''secret'')"
    by (simp add: lab_def token_response_def json_response_def)
  have h4: "\<not> (truthy (cached_token init_state) \<and>
               clock denied (ticks init_state) < token_expiration init_state)"
    by (simp add: init_state_def)
  have h5: "login denied (logins init_state) = Responds ?d \<and> resp_status ?d \<noteq> 200"
    by (simp add: denied_def lab_def)
  note c1 = get_auth_token_cache [of fresh ?w, THEN conjunct1, THEN mp, OF h1]
  note c2 = get_auth_token_cache [of stale ?w, THEN conjunct2, THEN mp, OF h2]
  note c3 = c2 [THEN conjunct2, THEN conjunct2, THEN conjunct1, THEN spec, THEN spec, THEN spec,
                THEN spec, THEN mp, OF h3]
  note c4 = get_auth_token_cache [of init_state denied, THEN conjunct2, THEN mp, OF h4]
  note c5 = c4 [THEN conjunct2, THEN conjunct2, THEN conjunct2, THEN spec, THEN mp, OF h5]
  have v1: "cached_token fresh = JStr ''old''" "login_count (trace fresh) = 0"
    by (simp_all add: fresh_def init_state_def obs)
  have v2: "login_count (trace stale) = 0" "truthy (cached_token stale)" "ticks stale = 0"
    "clock ?w 1 = 1000"
    by (simp_all add: stale_def init_state_def obs lab_def)
  have v3: "cached_token init_state = JNull" "token_expiration init_state = 0"
    by (simp_all add: init_state_def)
  from c1 v1 have p1: "fst (get_auth_token ?w fresh) = Inr (JStr ''old'')"
    "login_count (trace (snd (get_auth_token ?w fresh))) = 0" by simp_all
  from c2 c3 v2 have p2: "fst (get_auth_token ?w stale) = Inr (JStr ''secret'')"
    "cached_token (snd (get_auth_token ?w stale)) = JStr ''secret''"
    "token_expiration (snd (get_auth_token ?w stale)) = 1300"
    "login_count (trace (snd (get_auth_token ?w stale))) = 1" by simp_all
  from c5 v3 have p3:
    "fst (get_auth_token denied init_state) = Inl (Exception ''Failed to get authentication token'')"
    "cached_token (snd (get_auth_token denied init_state)) = JNull"
    "token_expiration (snd (get_auth_token denied init_state)) = 0" by simp_all
  from h1 h2 p1 p2 p3 show ?thesis by blast
qed

text \<open>
  The claim as stated fails where it says the raised error contains the response body:
  a login refused with the body \<^verbatim>\<open>denied\<close> raises an error whose message does not
  hold that body.
\<close>

theorem auth_error_carries_body_counterexample:
  "login denied (logins init_state) = Responds (Response 401 ''denied'' (Inr error_body)) \<and>
   \<not> (\<exists>e. fst (get_auth_token denied init_state) = Inl e \<and> contains ''denied'' (exn_message e))"
  by (simp add: denied_def run_defs)

lemma status_items_append:
  "status_items (xs @ ys) acc =
     (case status_items xs acc of Inl e \<Rightarrow> Inl e | Inr a \<Rightarrow> status_items ys a)"
  by (induction xs arbitrary: acc) (auto split: sum.splits)

lemma status_items_well_formed:
  "list_all has_fields xs \<Longrightarrow> \<exists>a. status_items xs acc = Inr a"
  by (induction xs arbitrary: acc) (auto simp add: has_fields_def split: sum.splits)

lemma status_items_last:
  assumes "list_all has_fields its" and "its \<noteq> []"
    and "getitem (last its) ''name'' = Inr n"
    and "getitem (last its) ''status'' = Inr st"
    and "getitem (last its) ''id'' = Inr i"
  shows "status_items its acc = Inr (n, st, i)"
proof -
  from assms(2) obtain xs where its: "its = xs @ [last its]"
    by (metis append_butlast_last_id)
  then have "list_all has_fields xs" using assms(1)
    by (metis list_all_append)
  then obtain a where "status_items xs acc = Inr a"
    using status_items_well_formed by blast
  then have "status_items (xs @ [last its]) acc = Inr (n, st, i)"
    using assms(3-5) by (simp add: status_items_append)
  then show ?thesis using its by simp
qed

lemma wazuh_agent_status_failure:
  assumes "fst (wazuh_api w ''get''
                  [Lit ''agents?q=name='', Val (name_value agt_name), Lit ''&wait_for_complete=true'']
                  JNull s) = Inr (Some c, response)"
    and "codes w c = Some d"
    and "is_success (Some c) response = Inr False"
  shows "fst (wazuh_agent_status w agt_name False s) = Inr (JNull, JNull, JNull)"
  using assms
  by (simp add: wazuh_agent_status_def resolve_def http_codes_serializer_def code_desc_def split_beta)

subsection \<open>The resolver\<close>

text \<open>
  When the agent list is answered with the status code 200 and the error field 0, and
  every item has a name, a status and an id, \<open>wazuh_agent_status\<close> returns the three
  fields of the last item of the list.
\<close>

theorem resolver_last_item_wins:
  assumes "fst (wazuh_api w ''get''
                  [Lit ''agents?q=name='', Val (name_value agt_name), Lit ''&wait_for_complete=true'']
                  JNull s) = Inr (Some 200, response)"
    and "codes w 200 = Some d"
    and "is_success (Some 200) response = Inr True"
    and "affected_items response = Inr its"
    and "list_all has_fields its" and "its \<noteq> []"
    and "getitem (last its) ''name'' = Inr n"
    and "getitem (last its) ''status'' = Inr st"
    and "getitem (last its) ''id'' = Inr i"
  shows "fst (wazuh_agent_status w agt_name False s) = Inr (n, st, i)"
proof -
  have "status_items its (JNull, JNull, JNull) = Inr (n, st, i)"
    using assms(5-9) by (rule status_items_last)
  then have "resolve w (Some 200) response = Inr (True, (response, Some 200, d), n, st, i)"
    using assms(2-4) by (simp add: resolve_def http_codes_serializer_def code_desc_def)
  then show ?thesis using assms(1)
    by (simp add: wazuh_agent_status_def split_beta)
qed

text \<open>
  When the answer carries a status code that the table of status codes knows and it is
  not a success (another status code, or an error field other than 0),
  \<open>wazuh_agent_status\<close> returns the triple of three \<^verbatim>\<open>None\<close>.
\<close>

theorem resolver_failure_is_null:
  assumes "fst (wazuh_api w ''get''
                  [Lit ''agents?q=name='', Val (name_value agt_name), Lit ''&wait_for_complete=true'']
                  JNull s) = Inr (Some c, response)"
    and "codes w c = Some d"
    and "is_success (Some c) response = Inr False"
  shows "fst (wazuh_agent_status w agt_name False s) = Inr (JNull, JNull, JNull)"
  using assms by (rule wazuh_agent_status_failure)

text \<open>
  Claim C4 says that every outcome other than a success yields the all-null triple.
  At a transport failure \<open>wazuh_api\<close> returns \<^verbatim>\<open>(None, {})\<close>, and
  \<open>http_codes_serializer\<close>, which runs before the test of the status code, looks
  \<^verbatim>\<open>None\<close> up in the table of status codes: \<open>wazuh_agent_status\<close> raises
  \<^verbatim>\<open>KeyError\<close> and returns nothing.
\<close>

theorem resolver_transport_failure_raises:
  "fst (wazuh_api offline ''get''
          [Lit ''agents?q=name='', Val (JStr ''n1''), Lit ''&wait_for_complete=true''] JNull init_state)
     = Inr (None, JObj []) \<and>
   fst (wazuh_agent_status offline (Some ''n1'') False init_state) = Inl KeyError"
  by (simp add: offline_def run_defs)



lemma codes_lab: "codes (lab env script) = requests_codes"
  by (simp add: lab_def)

lemma requests_codes_known:
  "requests_codes 200 = Some ''ok''"
  "requests_codes 400 = Some ''bad_request''"
  "requests_codes 500 = Some ''internal_server_error''"
  by (simp_all add: requests_codes_def)

theorem resolver_last_item_wins_witness:
  "fst (wazuh_agent_status two_records (Some ''n1'') False init_state)
     = Inr (JStr ''n1'', JStr ''active'', JStr ''002'')"
proof -
  let ?its = "[agent_item ''n1'' ''disconnected'' ''001'', agent_item ''n1'' ''active'' ''002'']"
  have a: "fst (wazuh_api two_records ''get''
                  [Lit ''agents?q=name='', Val (name_value (Some ''n1'')), Lit ''&wait_for_complete=true'']
                  JNull init_state) = Inr (Some 200, items_body ?its)"
    by (simp add: two_records_def run_defs)
  have b: "codes two_records 200 = Some ''ok''"
    by (simp add: two_records_def codes_lab requests_codes_known)
  have c: "is_success (Some 200) (items_body ?its) = Inr True"
    by (simp add: is_success_def items_body_def)
  have d: "affected_items (items_body ?its) = Inr ?its"
    by (simp add: affected_items_def items_body_def)
  have e: "list_all has_fields ?its" "?its \<noteq> []"
    by (simp_all add: has_fields_def agent_item_def)
  have f: "getitem (last ?its) ''name'' = Inr (JStr ''n1'')"
    "getitem (last ?its) ''status'' = Inr (JStr ''active'')"
    "getitem (last ?its) ''id'' = Inr (JStr ''002'')"
    by (simp_all add: agent_item_def)
  show ?thesis
    by (rule resolver_last_item_wins [OF a b c d e f])
qed

theorem resolver_failure_is_null_witness:
  "fst (wazuh_agent_status server_error (Some ''n1'') False init_state) = Inr (JNull, JNull, JNull)"
proof -
  have a: "fst (wazuh_api server_error ''get''
                  [Lit ''agents?q=name='', Val (name_value (Some ''n1'')), Lit ''&wait_for_complete=true'']
                  JNull init_state) = Inr (Some 500, error_body)"
    by (simp add: server_error_def run_defs)
  have b: "codes server_error 500 = Some ''internal_server_error''"
    by (simp add: server_error_def codes_lab requests_codes_known)
  have c: "is_success (Some 500) error_body = Inr False"
    by (simp add: is_success_def)
  show ?thesis
    by (rule resolver_failure_is_null [OF a b c])
qed

lemma wazuh_agent_status_frame:
  "calls_of (trace (snd (wazuh_agent_status w n False s))) =
     calls_of (trace s) @
       [(''get'', [Lit ''agents?q=name='', Val (name_value n), Lit ''&wait_for_complete=true''], JNull)]"
  "sleeps_of (trace (snd (wazuh_agent_status w n False s))) = sleeps_of (trace s)"
  "execs (snd (wazuh_agent_status w n False s)) = execs s"
  by (simp_all add: wazuh_agent_status_def split_beta logger_def emit_def obs wazuh_api_frame
      split: sum.splits)


subsection \<open>An absent agent\<close>





subsection \<open>The insert answered with 400\<close>

text \<open>
  Claim C1 says that the process ends with the \<^verbatim>\<open>ValueError\<close> of the missing key.
  With no agent for the node and the insert answered by the status code 400,
  \<open>add_agent\<close> returns \<^verbatim>\<open>None\<close>, and unpacking it into id and key raises
  \<^verbatim>\<open>TypeError\<close> before the test of the key is reached. Neither a subprocess (import,
  restart) nor a sleep of the polling loop happens; the two API calls are the resolution
  and the insert.
\<close>

theorem insert_rejected_raises_type_error:
  "map_option fst (main insert_rejected init_state) = Some (Inl TypeError) \<and>
   \<not> is_ValueError TypeError \<and>
   map_option (\<lambda>r. calls_of (trace (snd r))) (main insert_rejected init_state) =
     Some [(''get'', [Lit ''agents?q=name='', Val (JStr ''n1''), Lit ''&wait_for_complete=true''], JNull),
           (''post'', [Lit ''agents/insert''], insert_data (Some ''n1''))] \<and>
   map_option (\<lambda>r. execs (snd r)) (main insert_rejected init_state) = Some 0 \<and>
   map_option (\<lambda>r. sleeps_of (trace (snd r))) (main insert_rejected init_state) = Some []"
proof -
  have "fst (enroll insert_rejected init_state) = Inl TypeError"
    by (simp add: insert_rejected_def run_defs)
  then have m: "main insert_rejected init_state = Some (Inl TypeError, snd (enroll insert_rejected init_state))"
    by (simp add: main_def split_beta)
  have s: "calls_of (trace (snd (enroll insert_rejected init_state))) =
     [(''get'', [Lit ''agents?q=name='', Val (JStr ''n1''), Lit ''&wait_for_complete=true''], JNull),
      (''post'', [Lit ''agents/insert''], insert_data (Some ''n1''))]"
    "execs (snd (enroll insert_rejected init_state)) = 0"
    "sleeps_of (trace (snd (enroll insert_rejected init_state))) = []"
    by (simp_all add: insert_rejected_def insert_data_def run_defs obs)
  show ?thesis by (simp add: m s)
qed

subsection \<open>Group assignment at a transport failure\<close>

text \<open>
  Claim C10 says that a failed membership query, a transport failure included, skips
  the pre-check and goes on to the assignment. At a transport failure the serializer
  raises \<^verbatim>\<open>KeyError\<close> on the status code \<^verbatim>\<open>None\<close>: \<open>add_agent_to_group\<close> ends
  there, and the membership query is the only API call made.
\<close>

theorem membership_fetch_failure_aborts:
  "fst (wazuh_api offline ''get'' [Lit ''agents?agents_list='', Val (JStr ''001'')] JNull init_state)
     = Inr (None, JObj []) \<and>
   map_option fst (add_agent_to_group offline (JStr ''001'') ''web'' init_state) = Some (Inl KeyError) \<and>
   map_option (\<lambda>r. calls_of (trace (snd r))) (add_agent_to_group offline (JStr ''001'') ''web'' init_state)
     = Some [(''get'', [Lit ''agents?agents_list='', Val (JStr ''001'')], JNull)]"
proof -
  have g: "fst (group_attempt offline (JStr ''001'') ''web'' init_state) = Inl KeyError"
    by (simp add: offline_def run_defs)
  have m: "add_agent_to_group offline (JStr ''001'') ''web'' init_state =
             Some (Inl KeyError, snd (group_attempt offline (JStr ''001'') ''web'' init_state))"
    by (subst add_agent_to_group.simps) (simp add: g split_beta)
  have s: "calls_of (trace (snd (group_attempt offline (JStr ''001'') ''web'' init_state))) =
             [(''get'', [Lit ''agents?agents_list='', Val (JStr ''001'')], JNull)]"
    by (simp add: offline_def run_defs obs)
  have a: "fst (wazuh_api offline ''get'' [Lit ''agents?agents_list='', Val (JStr ''001'')] JNull init_state)
     = Inr (None, JObj [])"
    by (simp add: offline_def run_defs)
  show ?thesis by (simp add: m s a)
qed

text \<open>
  Claim C6 says that every failed assignment is followed by a sleep and a retry. When
  the transport of the assignment request raises, \<open>wazuh_api\<close> returns
  \<^verbatim>\<open>(None, {})\<close> and the serializer raises \<^verbatim>\<open>KeyError\<close>: there is no sleep and no
  retry.
\<close>

theorem assignment_transport_failure_aborts:
  "fst (wazuh_api assign_refused ''put'' (group_resource (JStr ''001'') ''web'') JNull
          (snd (wazuh_api assign_refused ''get'' [Lit ''agents?agents_list='', Val (JStr ''001'')]
                  JNull init_state)))
     = Inr (None, JObj []) \<and>
   map_option fst (add_agent_to_group assign_refused (JStr ''001'') ''web'' init_state)
     = Some (Inl KeyError) \<and>
   map_option (\<lambda>r. sleeps_of (trace (snd r)))
     (add_agent_to_group assign_refused (JStr ''001'') ''web'' init_state) = Some [] \<and>
   map_option (\<lambda>r. calls_of (trace (snd r)))
     (add_agent_to_group assign_refused (JStr ''001'') ''web'' init_state)
     = Some [(''get'', [Lit ''agents?agents_list='', Val (JStr ''001'')], JNull),
             (''put'', group_resource (JStr ''001'') ''web'', JNull)]"
proof -
  have g: "fst (group_attempt assign_refused (JStr ''001'') ''web'' init_state) = Inl KeyError"
    by (simp add: assign_refused_def run_defs)
  have m: "add_agent_to_group assign_refused (JStr ''001'') ''web'' init_state =
             Some (Inl KeyError, snd (group_attempt assign_refused (JStr ''001'') ''web'' init_state))"
    by (subst add_agent_to_group.simps) (simp add: g split_beta)
  have s: "calls_of (trace (snd (group_attempt assign_refused (JStr ''001'') ''web'' init_state))) =
             [(''get'', [Lit ''agents?agents_list='', Val (JStr ''001'')], JNull),
              (''put'', group_resource (JStr ''001'') ''web'', JNull)]"
    "sleeps_of (trace (snd (group_attempt assign_refused (JStr ''001'') ''web'' init_state))) = []"
    by (simp_all add: assign_refused_def run_defs obs)
  have a: "fst (wazuh_api assign_refused ''put'' (group_resource (JStr ''001'') ''web'') JNull
          (snd (wazuh_api assign_refused ''get'' [Lit ''agents?agents_list='', Val (JStr ''001'')]
                  JNull init_state)))
     = Inr (None, JObj [])"
    by (simp add: assign_refused_def run_defs)
  show ?thesis by (simp add: m s a)
qed

lemma already_in_group_groups:
  "is_success c response = Inr True \<Longrightarrow>
   already_in_group c response g =
     (case current_groups response of Inl e \<Rightarrow> Inl e | Inr gs \<Rightarrow> py_in g gs)"
  by (simp add: already_in_group_def current_groups_def split: sum.splits)

lemma time_sleep_frame:
  "calls_of (trace (snd (time_sleep w t s))) = calls_of (trace s)"
  "calls (snd (time_sleep w t s)) = calls s"
  by (simp_all add: time_sleep_def emit_def obs split: option.splits)

lemma assign_group_frame:
  "calls_of (trace (snd (assign_group w i g s))) =
     calls_of (trace s) @ [(''put'', group_resource i g, JNull)]"
  by (simp add: assign_group_def Let_def split_beta logger_def emit_def obs wazuh_api_frame
      time_sleep_frame split: sum.splits)

lemma assign_group_accepted:
  assumes "fst (wazuh_api w ''put'' (group_resource i g) JNull s) = Inr (Some 200, r)"
    and "codes w 200 = Some d" and "is_success (Some 200) r = Inr True"
  shows "fst (assign_group w i g s) = Inr (Finished r)"
    and "sleeps_of (trace (snd (assign_group w i g s))) = sleeps_of (trace s)"
  using assms
  by (simp_all add: assign_group_def Let_def split_beta logger_def emit_def obs wazuh_api_frame
      http_codes_serializer_def code_desc_def)

subsection \<open>The pre-check of the group assignment\<close>

text \<open>
  Claim C5. Let the membership query be answered with the status code 200 and the
  error field 0. When the target group is in the agent's group list,
  \<open>add_agent_to_group\<close> returns with the membership query as its only API call: no
  assignment call and no sleep. When the group is absent, one invocation (one pass
  through the body, \<open>group_attempt\<close>) makes exactly one assignment call after the
  query; and when that call succeeds the whole of \<open>add_agent_to_group\<close> is that one
  query and that one assignment.
\<close>

theorem group_membership_short_circuit:
  assumes "fst (wazuh_api w ''get'' [Lit ''agents?agents_list='', Val wazuh_agent_id] JNull s)
             = Inr (Some 200, response)"
    and "codes w 200 = Some d"
    and "is_success (Some 200) response = Inr True"
    and "current_groups response = Inr current"
  shows
    "(py_in agent_group current = Inr True \<longrightarrow>
        (\<exists>s'. add_agent_to_group w wazuh_agent_id agent_group s = Some (Inr JNull, s') \<and>
              calls_of (trace s') =
                calls_of (trace s) @
                  [(''get'', [Lit ''agents?agents_list='', Val wazuh_agent_id], JNull)] \<and>
              sleeps_of (trace s') = sleeps_of (trace s))) \<and>
     (py_in agent_group current = Inr False \<longrightarrow>
        calls_of (trace (snd (group_attempt w wazuh_agent_id agent_group s))) =
          calls_of (trace s) @
            [(''get'', [Lit ''agents?agents_list='', Val wazuh_agent_id], JNull),
             (''put'', group_resource wazuh_agent_id agent_group, JNull)] \<and>
        (\<forall>r. fst (wazuh_api w ''put'' (group_resource wazuh_agent_id agent_group) JNull
                    (snd (wazuh_api w ''get'' [Lit ''agents?agents_list='', Val wazuh_agent_id]
                            JNull s))) = Inr (Some 200, r) \<and>
              is_success (Some 200) r = Inr True \<longrightarrow>
              (\<exists>s'. add_agent_to_group w wazuh_agent_id agent_group s = Some (Inr r, s') \<and>
                    calls_of (trace s') =
                      calls_of (trace s) @
                        [(''get'', [Lit ''agents?agents_list='', Val wazuh_agent_id], JNull),
                         (''put'', group_resource wazuh_agent_id agent_group, JNull)] \<and>
                    sleeps_of (trace s') = sleeps_of (trace s))))"
proof (intro conjI impI allI)
  let ?get = "[Lit ''agents?agents_list='', Val wazuh_agent_id]"
  let ?s1 = "snd (wazuh_api w ''get'' ?get JNull s)"
  have ser: "http_codes_serializer w response (Some 200) = Inr (response, Some 200, d)"
    using assms(2) by (simp add: http_codes_serializer_def code_desc_def)
  have pre: "already_in_group (Some 200) response agent_group = py_in agent_group current"
    using assms(3,4) by (simp add: already_in_group_groups)
  {
    assume p: "py_in agent_group current = Inr True"
    let ?s' = "logger INFO
        ''Wazuh agent ID {wazuh_agent_id} is already in group {agent_group}. Skipping addition.''
        [LVal wazuh_agent_id, LStr agent_group] ?s1"
    have g: "group_attempt w wazuh_agent_id agent_group s = (Inr (Finished JNull), ?s')"
      using assms(1) ser pre p by (simp add: group_attempt_def split_beta)
    have "add_agent_to_group w wazuh_agent_id agent_group s = Some (Inr JNull, ?s')"
      by (subst add_agent_to_group.simps) (simp add: g)
    moreover have "calls_of (trace ?s') = calls_of (trace s) @ [(''get'', ?get, JNull)]"
      by (simp add: logger_def emit_def obs wazuh_api_frame)
    moreover have "sleeps_of (trace ?s') = sleeps_of (trace s)"
      by (simp add: logger_def emit_def obs wazuh_api_frame)
    ultimately show "\<exists>s'. add_agent_to_group w wazuh_agent_id agent_group s = Some (Inr JNull, s') \<and>
              calls_of (trace s') = calls_of (trace s) @ [(''get'', ?get, JNull)] \<and>
              sleeps_of (trace s') = sleeps_of (trace s)"
      by blast
  }
  {
    assume p: "py_in agent_group current = Inr False"
    have g: "group_attempt w wazuh_agent_id agent_group s =
               assign_group w wazuh_agent_id agent_group ?s1"
      using assms(1) ser pre p by (simp add: group_attempt_def split_beta)
    show "calls_of (trace (snd (group_attempt w wazuh_agent_id agent_group s))) =
          calls_of (trace s) @
            [(''get'', ?get, JNull), (''put'', group_resource wazuh_agent_id agent_group, JNull)]"
      by (simp add: g assign_group_frame wazuh_api_frame)
    fix r
    assume a: "fst (wazuh_api w ''put'' (group_resource wazuh_agent_id agent_group) JNull ?s1)
                 = Inr (Some 200, r) \<and> is_success (Some 200) r = Inr True"
    let ?s' = "snd (assign_group w wazuh_agent_id agent_group ?s1)"
    have f: "fst (assign_group w wazuh_agent_id agent_group ?s1) = Inr (Finished r)"
      using a assms(2) by (simp add: assign_group_accepted)
    have "add_agent_to_group w wazuh_agent_id agent_group s = Some (Inr r, ?s')"
      using f by (subst add_agent_to_group.simps) (simp add: g split_beta)
    moreover have "calls_of (trace ?s') = calls_of (trace s) @
            [(''get'', ?get, JNull), (''put'', group_resource wazuh_agent_id agent_group, JNull)]"
      by (simp add: assign_group_frame wazuh_api_frame)
    moreover have "sleeps_of (trace ?s') = sleeps_of (trace s)"
      using a assms(2) by (simp add: assign_group_accepted wazuh_api_frame)
    ultimately show "\<exists>s'. add_agent_to_group w wazuh_agent_id agent_group s = Some (Inr r, s') \<and>
                    calls_of (trace s') =
                      calls_of (trace s) @
                        [(''get'', ?get, JNull),
                         (''put'', group_resource wazuh_agent_id agent_group, JNull)] \<and>
                    sleeps_of (trace s') = sleeps_of (trace s)"
      by blast
  }
qed



theorem group_membership_short_circuit_witness:
  "py_in ''web'' (JList [JStr ''default'', JStr ''web'']) = Inr True \<and>
   (\<exists>s'. add_agent_to_group member_already (JStr ''001'') ''web'' init_state = Some (Inr JNull, s') \<and>
         calls_of (trace s') = [(''get'', [Lit ''agents?agents_list='', Val (JStr ''001'')], JNull)] \<and>
         sleeps_of (trace s') = []) \<and>
   py_in ''web'' (JList [JStr ''default'']) = Inr False \<and>
   (\<exists>s'. add_agent_to_group assigned_at_once (JStr ''001'') ''web'' init_state = Some (Inr ok_body, s') \<and>
         calls_of (trace s') =
           [(''get'', [Lit ''agents?agents_list='', Val (JStr ''001'')], JNull),
            (''put'', group_resource (JStr ''001'') ''web'', JNull)] \<and>
         sleeps_of (trace s') = [])"
proof -
  let ?get = "[Lit ''agents?agents_list='', Val (JStr ''001'')]"
  let ?b1 = "items_body [grouped_item ''001'' [''default'', ''web'']]"
  let ?b2 = "items_body [grouped_item ''001'' [''default'']]"
  have a1: "fst (wazuh_api member_already ''get'' ?get JNull init_state) = Inr (Some 200, ?b1)"
    by (simp add: member_already_def run_defs)
  have c1: "codes member_already 200 = Some ''ok''"
    by (simp add: member_already_def codes_lab requests_codes_known)
  have s1: "is_success (Some 200) ?b1 = Inr True"
    by (simp add: is_success_def items_body_def)
  have g1: "current_groups ?b1 = Inr (JList [JStr ''default'', JStr ''web''])"
    by (simp add: current_groups_def items_body_def grouped_item_def)
  have p1: "py_in ''web'' (JList [JStr ''default'', JStr ''web'']) = Inr True" by simp
  note t1 = group_membership_short_circuit [OF a1 c1 s1 g1, of "''web''", THEN conjunct1, THEN mp, OF p1]
  have a2: "fst (wazuh_api assigned_at_once ''get'' ?get JNull init_state) = Inr (Some 200, ?b2)"
    by (simp add: assigned_at_once_def run_defs)
  have c2: "codes assigned_at_once 200 = Some ''ok''"
    by (simp add: assigned_at_once_def codes_lab requests_codes_known)
  have s2: "is_success (Some 200) ?b2 = Inr True"
    by (simp add: is_success_def items_body_def)
  have g2: "current_groups ?b2 = Inr (JList [JStr ''default''])"
    by (simp add: current_groups_def items_body_def grouped_item_def)
  have p2: "py_in ''web'' (JList [JStr ''default'']) = Inr False" by simp
  have q2: "fst (wazuh_api assigned_at_once ''put'' (group_resource (JStr ''001'') ''web'') JNull
                  (snd (wazuh_api assigned_at_once ''get'' ?get JNull init_state)))
              = Inr (Some 200, ok_body) \<and> is_success (Some 200) ok_body = Inr True"
    by (simp add: assigned_at_once_def ok_body_def run_defs)
  note t2 = group_membership_short_circuit [OF a2 c2 s2 g2, of "''web''", THEN conjunct2, THEN mp, OF p2,
              THEN conjunct2, THEN spec, THEN mp, OF q2]
  have e: "calls_of (trace init_state) = []" "sleeps_of (trace init_state) = []"
    by (simp_all add: init_state_def obs)
  from t1 t2 p1 p2 show ?thesis by (simp add: e)
qed

lemma wazuh_api_sleeps: "sleeps_of (trace (snd (wazuh_api w m r d s))) = sleeps_of (trace s)"
  by (rule wazuh_api_frame(2))

lemma group_attempt_pass:
  assumes L: "\<forall>k. login_ok (login w k)"
    and P: "precheck w g (api w (calls s)) = Inr False"
  shows "group_attempt w i g s =
           assign_group w i g (snd (wazuh_api w ''get'' [Lit ''agents?agents_list='', Val i] JNull s))"
proof -
  have f: "fst (wazuh_api w ''get'' [Lit ''agents?agents_list='', Val i] JNull s)
             = api_result (api w (calls s))"
    by (rule wazuh_api_sends(1)[OF L])
  show ?thesis using P
    by (auto simp add: group_attempt_def precheck_def f split_beta split: sum.splits prod.splits)
qed

lemma assign_group_rejected:
  assumes L: "\<forall>k. login_ok (login w k)"
    and W: "py_int w (getenv w ''WAZUH_WAIT_TIME'' ''30'') = Some t" "0 \<le> t" "t \<le> sleep_limit w"
    and V: "verdict w (api w (calls s)) = Inr False"
  shows "fst (assign_group w i g s) = Inr Again"
    and "sleeps_of (trace (snd (assign_group w i g s))) = sleeps_of (trace s) @ [t]"
    and "calls (snd (assign_group w i g s)) = Suc (calls s)"
proof -
  have f: "fst (wazuh_api w ''put'' (group_resource i g) JNull s) = api_result (api w (calls s))"
    by (rule wazuh_api_sends(1)[OF L])
  have c: "calls (snd (wazuh_api w ''put'' (group_resource i g) JNull s)) = Suc (calls s)"
    by (rule wazuh_api_sends(2)[OF L])
  show "fst (assign_group w i g s) = Inr Again" using V W
    by (auto simp add: assign_group_def verdict_def f Let_def split_beta time_sleep_def
        split: sum.splits prod.splits)
  show "sleeps_of (trace (snd (assign_group w i g s))) = sleeps_of (trace s) @ [t]" using V W
    by (auto simp add: assign_group_def verdict_def f Let_def split_beta time_sleep_def
        logger_def emit_def obs wazuh_api_sleeps split: sum.splits prod.splits)
  show "calls (snd (assign_group w i g s)) = Suc (calls s)" using V W c
    by (auto simp add: assign_group_def verdict_def f Let_def split_beta time_sleep_def
        logger_def emit_def split: sum.splits prod.splits)
qed

lemma assign_group_verdict_accepted:
  assumes L: "\<forall>k. login_ok (login w k)"
    and V: "verdict w (api w (calls s)) = Inr True"
  shows "\<exists>r. fst (assign_group w i g s) = Inr (Finished r)"
    and "sleeps_of (trace (snd (assign_group w i g s))) = sleeps_of (trace s)"
proof -
  have f: "fst (wazuh_api w ''put'' (group_resource i g) JNull s) = api_result (api w (calls s))"
    by (rule wazuh_api_sends(1)[OF L])
  show "\<exists>r. fst (assign_group w i g s) = Inr (Finished r)" using V
    by (auto simp add: assign_group_def verdict_def f Let_def split_beta
        split: sum.splits prod.splits)
  show "sleeps_of (trace (snd (assign_group w i g s))) = sleeps_of (trace s)" using V
    by (auto simp add: assign_group_def verdict_def f Let_def split_beta
        logger_def emit_def obs wazuh_api_sleeps split: sum.splits prod.splits)
qed



lemma get_auth_token_frames: "frames (snd (get_auth_token w s)) = frames s"
  by (simp add: get_auth_token_def time_time_def logger_def emit_def Let_def
      split: outcome.splits sum.splits prod.splits)

lemma wazuh_api_frames: "frames (snd (wazuh_api w m r d s)) = frames s"
  using get_auth_token_frames[of w "emit (ApiCall m r d) s"]
  by (simp add: wazuh_api_def wazuh_api_try_def split_beta Let_def emit_def logger_def
      split: outcome.splits sum.splits)

lemma assign_group_frames: "frames (snd (assign_group w i g s)) = frames s"
  by (simp add: assign_group_def Let_def split_beta logger_def emit_def time_sleep_def
      wazuh_api_frames split: sum.splits option.splits)

subsection \<open>Retrying the group assignment\<close>

text \<open>
  Let every login succeed, the wait interval be a non-negative integer \<open>t\<close> that
  \<^verbatim>\<open>time.sleep\<close> accepts, and \<open>n\<close> further invocations fit under the limit on the
  depth of recursion. When the pre-check lets the first \<open>n + 1\<close> invocations through,
  the assignment is rejected \<open>n\<close> times by an answer whose status code the table
  knows, and is accepted the next time, then \<open>add_agent_to_group\<close> returns after
  exactly \<open>n\<close> sleeps of \<open>t\<close> seconds, and its API calls are \<open>n + 1\<close> pairs of
  membership query and assignment: nothing else is called.
\<close>

theorem group_assignment_retries:
  assumes L: "\<forall>k. login_ok (login w k)"
    and W: "py_int w (getenv w ''WAZUH_WAIT_TIME'' ''30'') = Some t" "0 \<le> t" "t \<le> sleep_limit w"
    and D: "frames s + n < recursion_limit w"
    and P: "\<forall>k\<le>n. precheck w g (api w (calls s + 2 * k)) = Inr False"
    and F: "\<forall>k<n. verdict w (api w (calls s + 2 * k + 1)) = Inr False"
    and S: "verdict w (api w (calls s + 2 * n + 1)) = Inr True"
  shows "\<exists>r s'. add_agent_to_group w i g s = Some (Inr r, s') \<and>
           sleeps_of (trace s') = sleeps_of (trace s) @ replicate n t \<and>
           calls_of (trace s') =
             calls_of (trace s) @
               concat (replicate (Suc n)
                 [(''get'', [Lit ''agents?agents_list='', Val i], JNull),
                  (''put'', group_resource i g, JNull)])"
  using D P F S
proof (induction n arbitrary: s)
  case 0
  let ?s1 = "snd (wazuh_api w ''get'' [Lit ''agents?agents_list='', Val i] JNull s)"
  have c1: "calls ?s1 = Suc (calls s)" by (rule wazuh_api_sends(2)[OF L])
  have g: "group_attempt w i g s = assign_group w i g ?s1"
    using "0.prems"(2) by (intro group_attempt_pass[OF L]) simp
  have v: "verdict w (api w (calls ?s1)) = Inr True" using "0.prems"(4) c1 by simp
  obtain r where f: "fst (assign_group w i g ?s1) = Inr (Finished r)"
    using assign_group_verdict_accepted(1)[OF L v] by blast
  let ?s' = "snd (assign_group w i g ?s1)"
  have "add_agent_to_group w i g s = Some (Inr r, ?s')"
    using f by (subst add_agent_to_group.simps) (simp add: g split_beta)
  moreover have "sleeps_of (trace ?s') = sleeps_of (trace s) @ replicate 0 t"
    by (simp add: assign_group_verdict_accepted(2)[OF L v] wazuh_api_frame)
  moreover have "calls_of (trace ?s') = calls_of (trace s) @
      concat (replicate (Suc 0) [(''get'', [Lit ''agents?agents_list='', Val i], JNull),
                                 (''put'', group_resource i g, JNull)])"
    by (simp add: assign_group_frame wazuh_api_frame)
  ultimately show ?case by blast
next
  case (Suc n)
  let ?s1 = "snd (wazuh_api w ''get'' [Lit ''agents?agents_list='', Val i] JNull s)"
  have c1: "calls ?s1 = Suc (calls s)" by (rule wazuh_api_sends(2)[OF L])
  have "precheck w g (api w (calls s + 2 * 0)) = Inr False"
    using Suc.prems(2)[rule_format, of 0] by simp
  then have g: "group_attempt w i g s = assign_group w i g ?s1"
    by (intro group_attempt_pass[OF L]) simp
  have "verdict w (api w (calls s + 2 * 0 + 1)) = Inr False"
    using Suc.prems(3)[rule_format, of 0] by simp
  then have v: "verdict w (api w (calls ?s1)) = Inr False" using c1 by simp
  let ?s2 = "snd (assign_group w i g ?s1)"
  let ?s3 = "?s2\<lparr>frames := Suc (frames ?s2)\<rparr>"
  note a = assign_group_rejected[OF L W v, of i g]
  have f2: "frames ?s2 = frames s" by (simp add: assign_group_frames wazuh_api_frames)
  have c3: "calls ?s3 = calls s + 2" using a(3) c1 by simp
  have room: "\<not> recursion_limit w \<le> Suc (frames ?s2)" using Suc.prems(1) f2 by simp
  have D': "frames ?s3 + n < recursion_limit w" using Suc.prems(1) f2 by simp
  have P': "\<forall>k\<le>n. precheck w g (api w (calls ?s3 + 2 * k)) = Inr False"
  proof (intro allI impI)
    fix k assume "k \<le> n"
    then have "precheck w g (api w (calls s + 2 * Suc k)) = Inr False"
      using Suc.prems(2)[rule_format, of "Suc k"] by simp
    then show "precheck w g (api w (calls ?s3 + 2 * k)) = Inr False"
      by (simp add: c3 add.commute add.left_commute)
  qed
  have F': "\<forall>k<n. verdict w (api w (calls ?s3 + 2 * k + 1)) = Inr False"
  proof (intro allI impI)
    fix k assume "k < n"
    then have "verdict w (api w (calls s + 2 * Suc k + 1)) = Inr False"
      using Suc.prems(3)[rule_format, of "Suc k"] by simp
    then show "verdict w (api w (calls ?s3 + 2 * k + 1)) = Inr False"
      by (simp add: c3 add.commute add.left_commute)
  qed
  have S': "verdict w (api w (calls ?s3 + 2 * n + 1)) = Inr True"
    using Suc.prems(4) by (simp add: c3 add.commute add.left_commute)
  obtain r s' where rec: "add_agent_to_group w i g ?s3 = Some (Inr r, s')"
    and sl: "sleeps_of (trace s') = sleeps_of (trace ?s3) @ replicate n t"
    and cl: "calls_of (trace s') = calls_of (trace ?s3) @
               concat (replicate (Suc n)
                 [(''get'', [Lit ''agents?agents_list='', Val i], JNull),
                  (''put'', group_resource i g, JNull)])"
    using Suc.IH[OF D' P' F' S'] by blast
  let ?s'' = "s'\<lparr>frames := frames ?s2\<rparr>"
  have "add_agent_to_group w i g s = Some (Inr JNull, ?s'')"
    using a(1) rec room by (subst add_agent_to_group.simps) (simp add: g split_beta)
  moreover have "sleeps_of (trace ?s'') = sleeps_of (trace s) @ replicate (Suc n) t"
    using sl a(2) by (simp add: wazuh_api_frame replicate_app_Cons_same)
  moreover have "calls_of (trace ?s'') = calls_of (trace s) @
               concat (replicate (Suc (Suc n))
                 [(''get'', [Lit ''agents?agents_list='', Val i], JNull),
                  (''put'', group_resource i g, JNull)])"
    using cl by (simp add: assign_group_frame wazuh_api_frame)
  ultimately show ?case by blast
qed

lemma wazuh_agent_status_sends:
  assumes L: "\<forall>k. login_ok (login w k)"
  shows "fst (wazuh_agent_status w n False s) =
           (case api_result (api w (calls s)) of
              Inl e \<Rightarrow> Inl e
            | Inr (c, body) \<Rightarrow>
                (case resolve w c body of Inl e \<Rightarrow> Inl e | Inr (ok, m, r) \<Rightarrow> Inr r))"
    and "calls (snd (wazuh_agent_status w n False s)) = Suc (calls s)"
proof -
  let ?q = "[Lit ''agents?q=name='', Val (name_value n), Lit ''&wait_for_complete=true'']"
  have f: "fst (wazuh_api w ''get'' ?q JNull s) = api_result (api w (calls s))"
    by (rule wazuh_api_sends(1)[OF L])
  have c: "calls (snd (wazuh_api w ''get'' ?q JNull s)) = Suc (calls s)"
    by (rule wazuh_api_sends(2)[OF L])
  show "fst (wazuh_agent_status w n False s) =
           (case api_result (api w (calls s)) of
              Inl e \<Rightarrow> Inl e
            | Inr (c, body) \<Rightarrow>
                (case resolve w c body of Inl e \<Rightarrow> Inl e | Inr (ok, m, r) \<Rightarrow> Inr r))"
    by (simp add: wazuh_agent_status_def f split_beta split: sum.splits)
  show "calls (snd (wazuh_agent_status w n False s)) = Suc (calls s)"
    using c by (simp add: wazuh_agent_status_def split_beta logger_def emit_def split: sum.splits)
qed

lemma poll_step_waiting:
  assumes L: "\<forall>k. login_ok (login w k)"
    and W: "py_int w (getenv w ''WAZUH_WAIT_TIME'' ''10'') = Some t" "0 \<le> t" "t \<le> sleep_limit w"
    and O: "reports_waiting w (api w (calls s))"
  shows "fst (poll_step w s) = Inr Waiting"
    and "calls (snd (poll_step w s)) = Suc (calls s)"
    and "sleeps_of (trace (snd (poll_step w s))) = sleeps_of (trace s) @ [t]"
    and "calls_of (trace (snd (poll_step w s))) = calls_of (trace s) @ [status_query (node_name w)]"
proof -
  let ?r = "wazuh_agent_status w (node_name w) False s"
  from O obtain nm st i where r: "fst ?r = Inr (nm, st, i)" and st: "st \<noteq> JStr ''active''"
    by (auto simp add: reports_waiting_def observed_def wazuh_agent_status_sends(1)[OF L]
        split: sum.splits prod.splits)
  have c: "calls (snd ?r) = Suc (calls s)" by (rule wazuh_agent_status_sends(2)[OF L])
  show "fst (poll_step w s) = Inr Waiting" using r st W
    by (simp add: poll_step_def Let_def split_beta time_sleep_def)
  show "calls (snd (poll_step w s)) = Suc (calls s)" using r st W c
    by (simp add: poll_step_def Let_def split_beta time_sleep_def logger_def emit_def)
  show "sleeps_of (trace (snd (poll_step w s))) = sleeps_of (trace s) @ [t]" using r st W
    by (simp add: poll_step_def Let_def split_beta time_sleep_def logger_def emit_def obs
        wazuh_agent_status_frame)
  show "calls_of (trace (snd (poll_step w s))) = calls_of (trace s) @ [status_query (node_name w)]"
    using r st W
    by (simp add: poll_step_def Let_def split_beta time_sleep_def logger_def emit_def obs
        wazuh_agent_status_frame status_query_def)
qed

lemma poll_step_active:
  assumes L: "\<forall>k. login_ok (login w k)"
    and O: "reports_active w (api w (calls s))"
  shows "\<exists>nm i. fst (poll_step w s) = Inr (Active (nm, JStr ''active'', i))"
    and "sleeps_of (trace (snd (poll_step w s))) = sleeps_of (trace s)"
    and "calls_of (trace (snd (poll_step w s))) = calls_of (trace s) @ [status_query (node_name w)]"
proof -
  let ?r = "wazuh_agent_status w (node_name w) False s"
  from O obtain nm i where r: "fst ?r = Inr (nm, JStr ''active'', i)"
    by (auto simp add: reports_active_def observed_def wazuh_agent_status_sends(1)[OF L]
        split: sum.splits prod.splits)
  show "\<exists>nm i. fst (poll_step w s) = Inr (Active (nm, JStr ''active'', i))" using r
    by (simp add: poll_step_def Let_def split_beta)
  show "sleeps_of (trace (snd (poll_step w s))) = sleeps_of (trace s)" using r
    by (simp add: poll_step_def Let_def split_beta logger_def emit_def obs wazuh_agent_status_frame)
  show "calls_of (trace (snd (poll_step w s))) = calls_of (trace s) @ [status_query (node_name w)]"
    using r
    by (simp add: poll_step_def Let_def split_beta logger_def emit_def obs wazuh_agent_status_frame
        status_query_def)
qed

lemma poll_terminates:
  assumes L: "\<forall>k. login_ok (login w k)"
    and W: "py_int w (getenv w ''WAZUH_WAIT_TIME'' ''10'') = Some t" "0 \<le> t" "t \<le> sleep_limit w"
    and P: "\<forall>k<n. reports_waiting w (api w (calls s + k))"
    and A: "reports_active w (api w (calls s + n))"
  shows "\<exists>nm i s'. poll w s = Some (Inr (nm, JStr ''active'', i), s') \<and>
           calls_of (trace s') = calls_of (trace s) @ replicate (Suc n) (status_query (node_name w)) \<and>
           sleeps_of (trace s') = sleeps_of (trace s) @ replicate n t"
  using P A
proof (induction n arbitrary: s)
  case 0
  then have a: "reports_active w (api w (calls s))" by simp
  obtain nm i where f: "fst (poll_step w s) = Inr (Active (nm, JStr ''active'', i))"
    using poll_step_active(1)[OF L a] by blast
  have "poll w s = Some (Inr (nm, JStr ''active'', i), snd (poll_step w s))"
    using f by (subst poll.simps) (simp add: split_beta)
  then show ?case
    using poll_step_active(2,3)[OF L a] by auto
next
  case (Suc n)
  have p0: "reports_waiting w (api w (calls s))"
    using Suc.prems(1)[rule_format, of 0] by simp
  let ?s1 = "snd (poll_step w s)"
  note st = poll_step_waiting[OF L W p0]
  have P': "\<forall>k<n. reports_waiting w (api w (calls ?s1 + k))"
  proof (intro allI impI)
    fix k assume "k < n"
    then show "reports_waiting w (api w (calls ?s1 + k))"
      using Suc.prems(1)[rule_format, of "Suc k"] by (simp add: st(2))
  qed
  have A': "reports_active w (api w (calls ?s1 + n))"
    using Suc.prems(2) by (simp add: st(2))
  obtain nm i s' where rec: "poll w ?s1 = Some (Inr (nm, JStr ''active'', i), s')"
    and cl: "calls_of (trace s') = calls_of (trace ?s1) @ replicate (Suc n) (status_query (node_name w))"
    and sl: "sleeps_of (trace s') = sleeps_of (trace ?s1) @ replicate n t"
    using Suc.IH[OF P' A'] by blast
  have "poll w s = Some (Inr (nm, JStr ''active'', i), s')"
    using st(1) rec by (subst poll.simps) (simp add: split_beta)
  moreover have "calls_of (trace s') =
      calls_of (trace s) @ replicate (Suc (Suc n)) (status_query (node_name w))"
    using cl st(4) by (simp add: replicate_app_Cons_same)
  moreover have "sleeps_of (trace s') = sleeps_of (trace s) @ replicate (Suc n) t"
    using sl st(3) by (simp add: replicate_app_Cons_same)
  ultimately show ?case by blast
qed





lemma poll_diverges:
  assumes L: "\<forall>k. login_ok (login w k)"
    and W: "py_int w (getenv w ''WAZUH_WAIT_TIME'' ''10'') = Some t" "0 \<le> t" "t \<le> sleep_limit w"
    and N: "\<forall>k. reports_waiting w (api w (calls s + k))"
  shows "poll w s = None"
proof (rule ccontr)
  assume "poll w s \<noteq> None"
  then obtain y where y: "poll w s = Some y" by blast
  have "w = w \<longrightarrow> (\<forall>k. reports_waiting w (api w (calls s + k))) \<longrightarrow> False"
  proof (rule poll.raw_induct
      [where P = "\<lambda>w' s y. w' = w \<longrightarrow> (\<forall>k. reports_waiting w (api w (calls s + k))) \<longrightarrow> False",
       OF _ y])
    fix f :: "world \<Rightarrow> state \<Rightarrow> ((exn + json \<times> json \<times> json) \<times> state) option"
      and w' :: world and s :: state and y :: "(exn + json \<times> json \<times> json) \<times> state"
    assume IH: "\<And>w' s y. f w' s = Some y \<Longrightarrow>
                  w' = w \<longrightarrow> (\<forall>k. reports_waiting w (api w (calls s + k))) \<longrightarrow> False"
      and h: "(case poll_step w' s of
                 (Inl e, s1) \<Rightarrow> Some (Inl e, s1)
               | (Inr (Active r), s1) \<Rightarrow> Some (Inr r, s1)
               | (Inr Waiting, s1) \<Rightarrow> f w' s1) = Some y"
    show "w' = w \<longrightarrow> (\<forall>k. reports_waiting w (api w (calls s + k))) \<longrightarrow> False"
    proof (intro impI)
      assume eq: "w' = w" and n: "\<forall>k. reports_waiting w (api w (calls s + k))"
      have p0: "reports_waiting w (api w (calls s))" using n[rule_format, of 0] by simp
      note st = poll_step_waiting[OF L W p0]
      have "f w (snd (poll_step w s)) = Some y"
        using h st(1) eq by (simp add: split_beta)
      moreover have "\<forall>k. reports_waiting w (api w (calls (snd (poll_step w s)) + k))"
      proof
        fix k show "reports_waiting w (api w (calls (snd (poll_step w s)) + k))"
          using n[rule_format, of "Suc k"] by (simp add: st(2))
      qed
      ultimately show False using IH by blast
    qed
  qed
  then show False using N by blast
qed

lemma poll_step_active_only:
  "fst (poll_step w s) = Inr (Active (nm, st, i)) \<Longrightarrow> st = JStr ''active''"
  by (auto simp add: poll_step_def Let_def split_beta split: if_splits sum.splits)

lemma poll_exit_active:
  assumes y: "poll w s = Some y"
  shows "\<forall>nm st i s'. y = (Inr (nm, st, i), s') \<longrightarrow> st = JStr ''active''"
proof (rule poll.raw_induct
    [where P = "\<lambda>w s y. \<forall>nm st i s'. y = (Inr (nm, st, i), s') \<longrightarrow> st = JStr ''active''",
     OF _ y])
  fix f :: "world \<Rightarrow> state \<Rightarrow> ((exn + json \<times> json \<times> json) \<times> state) option"
    and w :: world and s :: state and y :: "(exn + json \<times> json \<times> json) \<times> state"
  assume IH: "\<And>w s y. f w s = Some y \<Longrightarrow>
                \<forall>nm st i s'. y = (Inr (nm, st, i), s') \<longrightarrow> st = JStr ''active''"
    and h: "(case poll_step w s of
               (Inl e, s1) \<Rightarrow> Some (Inl e, s1)
             | (Inr (Active r), s1) \<Rightarrow> Some (Inr r, s1)
             | (Inr Waiting, s1) \<Rightarrow> f w s1) = Some y"
  show "\<forall>nm st i s'. y = (Inr (nm, st, i), s') \<longrightarrow> st = JStr ''active''"
  proof (cases "fst (poll_step w s)")
    case (Inl e)
    then show ?thesis using h by (auto simp add: split_beta)
  next
    case (Inr p)
    show ?thesis
    proof (cases p)
      case (Active r)
      then show ?thesis using h Inr poll_step_active_only[of w s]
        by (cases r) (auto simp add: split_beta)
    next
      case Waiting
      then have "f w (snd (poll_step w s)) = Some y"
        using h Inr by (simp add: split_beta)
      then show ?thesis using IH by blast
    qed
  qed
qed

subsection \<open>The polling loop\<close>

text \<open>
  Let every login succeed and the wait interval be a non-negative integer \<open>t\<close> that
  \<^verbatim>\<open>time.sleep\<close> accepts, and let every resolution return (its answer carries a
  status code that the table knows). Each iteration of the loop is one resolution.
  When the first \<open>n\<close> resolutions report a status other than active and the next one
  reports active, the loop ends after exactly \<open>n + 1\<close> resolutions, with a sleep of
  \<open>t\<close> seconds after each of the first \<open>n\<close>. When no resolution ever reports active
  the loop never ends: there is no bound on the attempts. And whenever the loop ends
  normally, the status it ends with is active.
\<close>

theorem polling_until_active:
  assumes L: "\<forall>k. login_ok (login w k)"
    and W: "py_int w (getenv w ''WAZUH_WAIT_TIME'' ''10'') = Some t" "0 \<le> t" "t \<le> sleep_limit w"
  shows
    "((\<forall>k<n. reports_waiting w (api w (calls s + k))) \<and> reports_active w (api w (calls s + n)) \<longrightarrow>
        (\<exists>nm i s'. poll w s = Some (Inr (nm, JStr ''active'', i), s') \<and>
           calls_of (trace s') =
             calls_of (trace s) @ replicate (Suc n) (status_query (node_name w)) \<and>
           sleeps_of (trace s') = sleeps_of (trace s) @ replicate n t)) \<and>
     ((\<forall>k. reports_waiting w (api w (calls s + k))) \<longrightarrow> poll w s = None) \<and>
     (\<forall>nm st i s'. poll w s = Some (Inr (nm, st, i), s') \<longrightarrow> st = JStr ''active'')"
proof (intro conjI impI allI)
  assume "(\<forall>k<n. reports_waiting w (api w (calls s + k))) \<and> reports_active w (api w (calls s + n))"
  then show "\<exists>nm i s'. poll w s = Some (Inr (nm, JStr ''active'', i), s') \<and>
           calls_of (trace s') =
             calls_of (trace s) @ replicate (Suc n) (status_query (node_name w)) \<and>
           sleeps_of (trace s') = sleeps_of (trace s) @ replicate n t"
    using poll_terminates[OF L W] by blast
next
  assume "\<forall>k. reports_waiting w (api w (calls s + k))"
  then show "poll w s = None" by (rule poll_diverges[OF L W])
next
  fix nm st i s'
  assume "poll w s = Some (Inr (nm, st, i), s')"
  then show "st = JStr ''active''" using poll_exit_active by blast
qed

lemma lab_logins: "\<forall>k. login_ok (login (lab env script) k)"
  by (simp add: lab_def login_ok_def token_response_def json_response_def)

lemma below_two: "k < (2::nat) \<Longrightarrow> k = 0 \<or> k = 1" by arith

lemma upto_two: "k \<le> (2::nat) \<Longrightarrow> k = 0 \<or> k = 1 \<or> k = 2" by arith

lemmas obs_defs = reports_waiting_def reports_active_def observed_def precheck_def verdict_def
  api_result_def current_groups_def grouped_item_def ok_body_def status_query_def

theorem polling_until_active_witness:
  "(\<exists>nm i s'. poll becomes_active init_state = Some (Inr (nm, JStr ''active'', i), s') \<and>
      calls_of (trace s') = replicate 3 (status_query (Some ''n1'')) \<and>
      sleeps_of (trace s') = [10, 10]) \<and>
   poll never_active init_state = None"
proof -
  have L1: "\<forall>k. login_ok (login becomes_active k)"
    by (simp add: becomes_active_def lab_logins)
  have W1: "py_int becomes_active (getenv becomes_active ''WAZUH_WAIT_TIME'' ''10'') = Some 10"
    "(0::int) \<le> 10" "10 \<le> sleep_limit becomes_active"
    by (simp_all add: becomes_active_def run_defs)
  have P1: "\<forall>k<2. reports_waiting becomes_active (api becomes_active (calls init_state + k))"
  proof (intro allI impI)
    fix k :: nat assume "k < 2"
    then have "k = 0 \<or> k = 1" by (rule below_two)
    then show "reports_waiting becomes_active (api becomes_active (calls init_state + k))"
      by (auto simp add: becomes_active_def obs_defs run_defs)
  qed
  have A1: "reports_active becomes_active (api becomes_active (calls init_state + 2))"
    by (simp add: becomes_active_def obs_defs run_defs)
  have n1: "node_name becomes_active = Some ''n1''"
    by (simp add: becomes_active_def run_defs)
  note t1 = polling_until_active [OF L1 W1, of 2 init_state, THEN conjunct1, THEN mp, OF conjI, OF P1 A1]
  have L2: "\<forall>k. login_ok (login never_active k)"
    by (simp add: never_active_def lab_def login_ok_def token_response_def json_response_def)
  have W2: "py_int never_active (getenv never_active ''WAZUH_WAIT_TIME'' ''10'') = Some 10"
    "(0::int) \<le> 10" "10 \<le> sleep_limit never_active"
    by (simp_all add: never_active_def run_defs)
  have N2: "\<forall>k. reports_waiting never_active (api never_active (calls init_state + k))"
    by (simp add: never_active_def obs_defs run_defs)
  note t2 = polling_until_active [OF L2 W2, of 0 init_state, THEN conjunct2, THEN conjunct1,
              THEN mp, OF N2]
  have e: "calls_of (trace init_state) = []" "sleeps_of (trace init_state) = []"
    by (simp_all add: init_state_def obs)
  have r: "replicate (Suc 2) (status_query (Some ''n1'')) = replicate 3 (status_query (Some ''n1''))"
    "replicate 2 (10::int) = [10, 10]"
    by (simp_all add: numeral_2_eq_2 numeral_3_eq_3)
  from t1 t2 show ?thesis by (simp add: e n1 r)
qed

theorem group_assignment_retries_witness:
  "\<exists>r s'. add_agent_to_group third_time_lucky (JStr ''001'') ''web'' init_state = Some (Inr r, s') \<and>
      sleeps_of (trace s') = [30, 30] \<and>
      calls_of (trace s') =
        concat (replicate 3
          [(''get'', [Lit ''agents?agents_list='', Val (JStr ''001'')], JNull),
           (''put'', group_resource (JStr ''001'') ''web'', JNull)])"
proof -
  let ?w = third_time_lucky
  have L: "\<forall>k. login_ok (login ?w k)"
    by (simp add: third_time_lucky_def lab_logins)
  have W: "py_int ?w (getenv ?w ''WAZUH_WAIT_TIME'' ''30'') = Some 30" "(0::int) \<le> 30"
    "30 \<le> sleep_limit ?w"
    by (simp_all add: third_time_lucky_def run_defs)
  have D: "frames init_state + 2 < recursion_limit ?w"
    by (simp add: third_time_lucky_def run_defs)
  have P: "\<forall>k\<le>2. precheck ?w ''web'' (api ?w (calls init_state + 2 * k)) = Inr False"
  proof (intro allI impI)
    fix k :: nat assume "k \<le> 2"
    then have "k = 0 \<or> k = 1 \<or> k = 2" by (rule upto_two)
    then show "precheck ?w ''web'' (api ?w (calls init_state + 2 * k)) = Inr False"
      by (auto simp add: third_time_lucky_def obs_defs run_defs)
  qed
  have F: "\<forall>k<2. verdict ?w (api ?w (calls init_state + 2 * k + 1)) = Inr False"
  proof (intro allI impI)
    fix k :: nat assume "k < 2"
    then have "k = 0 \<or> k = 1" by (rule below_two)
    then show "verdict ?w (api ?w (calls init_state + 2 * k + 1)) = Inr False"
      by (auto simp add: third_time_lucky_def obs_defs run_defs)
  qed
  have S: "verdict ?w (api ?w (calls init_state + 2 * 2 + 1)) = Inr True"
    by (simp add: third_time_lucky_def obs_defs run_defs)
  note t = group_assignment_retries [OF L W D P F S, of "JStr ''001''"]
  have e: "calls_of (trace init_state) = []" "sleeps_of (trace init_state) = []"
    by (simp_all add: init_state_def obs)
  have r: "replicate 2 (30::int) = [30, 30]" "Suc 2 = 3"
    by (simp_all add: numeral_2_eq_2)
  from t show ?thesis by (simp add: e r)
qed

text \<open>
  Claim C7 says that the loop ends exactly when a resolution reports active, and that
  it has no bound when active never appears. Here the first resolution reports
  pending and the transport of the second status query raises: \<open>wazuh_api\<close> returns
  \<^verbatim>\<open>(None, {})\<close>, the serializer inside \<open>wazuh_agent_status\<close> raises \<^verbatim>\<open>KeyError\<close>,
  and the loop ends after two resolutions and one sleep with no resolution having
  reported active.
\<close>

theorem polling_transport_failure_aborts:
  "observed pending_then_refused (api pending_then_refused 0) = Inr (JStr ''pending'') \<and>
   api_result (api pending_then_refused 1) = Inr (None, JObj []) \<and>
   map_option fst (poll pending_then_refused init_state) = Some (Inl KeyError) \<and>
   map_option (\<lambda>r. calls_of (trace (snd r))) (poll pending_then_refused init_state)
     = Some [status_query (Some ''n1''), status_query (Some ''n1'')] \<and>
   map_option (\<lambda>r. sleeps_of (trace (snd r))) (poll pending_then_refused init_state) = Some [10]"
proof -
  let ?w = pending_then_refused
  let ?s1 = "snd (poll_step ?w init_state)"
  let ?s2 = "snd (poll_step ?w ?s1)"
  have o: "observed ?w (api ?w 0) = Inr (JStr ''pending'')"
    "api_result (api ?w 1) = Inr (None, JObj [])"
    by (simp_all add: pending_then_refused_def obs_defs run_defs)
  have p1: "fst (poll_step ?w init_state) = Inr Waiting"
    by (simp add: pending_then_refused_def run_defs)
  have p2: "fst (poll_step ?w ?s1) = Inl KeyError"
    by (simp add: pending_then_refused_def run_defs)
  have "poll ?w ?s1 = Some (Inl KeyError, ?s2)"
    by (subst poll.simps) (simp add: p2 split_beta)
  then have m: "poll ?w init_state = Some (Inl KeyError, ?s2)"
    by (subst poll.simps) (simp add: p1 split_beta)
  have s: "calls_of (trace ?s2) = [status_query (Some ''n1''), status_query (Some ''n1'')]"
    "sleeps_of (trace ?s2) = [10]"
    by (simp_all add: pending_then_refused_def status_query_def run_defs obs)
  from o m s show ?thesis by simp
qed

end
